theory Spec2Isabelle
  imports Complex_Main "HOL-Library.Sublist"
begin

section \<open>The report intake store of heimdall2 (report\_intake.ts)\<close>

text \<open>
  The store decides, for an uploaded file, whether its text is already in the
  Heimdall Data Format (HDF) or which converter of the hdf-converters library
  turns it into HDF, and registers the result. The development follows
  \<^verbatim>\<open>apps/frontend/src/store/report_intake.ts\<close> function by function.
\<close>

subsection \<open>Values produced by JSON.parse\<close>

text \<open>
  A JavaScript number is a double. \<^verbatim>\<open>JSON.parse\<close> never yields NaN, but a literal
  such as \<^verbatim>\<open>1e999\<close> yields an infinity.
\<close>

datatype number = Num rat | PosInfinity | NegInfinity

text \<open>
  The value that \<^verbatim>\<open>JSON.parse\<close> returns. The members of an object are kept in the
  order of the text; a later member with the same key replaces an earlier one,
  which \<open>member\<close> below implements.
\<close>

datatype json =
    JNull
  | JBool bool
  | JNum number
  | JStr string
  | JArr "json list"
  | JObj "(string \<times> json) list"

text \<open>Exceptions are values; \<open>Error\<close> carries the message of \<^verbatim>\<open>new Error(msg)\<close>.\<close>

datatype exn = SyntaxError | TypeError | Error string

text \<open>\<^verbatim>\<open>Boolean(v)\<close> for a JSON value, and for a value that may be \<^verbatim>\<open>undefined\<close> (\<open>None\<close>).\<close>

fun truthy :: "json \<Rightarrow> bool" where
  "truthy JNull = False"
| "truthy (JBool b) = b"
| "truthy (JNum (Num r)) = (r \<noteq> 0)"
| "truthy (JNum PosInfinity) = True"
| "truthy (JNum NegInfinity) = True"
| "truthy (JStr s) = (s \<noteq> [])"
| "truthy (JArr xs) = True"
| "truthy (JObj kvs) = True"

fun toBoolean :: "json option \<Rightarrow> bool" where
  "toBoolean None = False"
| "toBoolean (Some v) = truthy v"

fun isArray :: "json option \<Rightarrow> bool" where
  "isArray (Some (JArr xs)) = True"
| "isArray _ = False"

text \<open>The member of an object literal that \<^verbatim>\<open>JSON.parse\<close> keeps for a key: the last one.\<close>

definition member :: "(string \<times> json) list \<Rightarrow> string \<Rightarrow> json option" where
  "member kvs k = map_of (rev kvs) k"

text \<open>
  An array index as a property key: a canonical decimal numeral (\<^verbatim>\<open>"0"\<close>, \<^verbatim>\<open>"17"\<close>, but
  neither \<^verbatim>\<open>"01"\<close> nor \<^verbatim>\<open>""\<close>).
\<close>

definition is_digit :: "char \<Rightarrow> bool" where
  "is_digit c = (48 \<le> (of_char c :: nat) \<and> (of_char c :: nat) \<le> 57)"

definition digit_val :: "char \<Rightarrow> nat" where
  "digit_val c = of_char c - 48"

definition array_index :: "string \<Rightarrow> nat option" where
  "array_index k =
     (if k \<noteq> [] \<and> list_all is_digit k \<and> (k = ''0'' \<or> hd k \<noteq> CHR ''0'')
      then Some (foldl (\<lambda>n c. 10 * n + digit_val c) 0 k)
      else None)"

text \<open>
  \<^verbatim>\<open>v[k]\<close> for a value \<open>v\<close> that is neither \<^verbatim>\<open>null\<close> nor \<^verbatim>\<open>undefined\<close>; \<open>None\<close> is
  \<^verbatim>\<open>undefined\<close>. Only own properties are modelled: the methods inherited from the
  prototypes have names that no key of this development uses.
\<close>

fun property :: "json \<Rightarrow> string \<Rightarrow> json option" where
  "property (JObj kvs) k = member kvs k"
| "property (JArr xs) k =
     (if k = ''length'' then Some (JNum (Num (of_nat (length xs))))
      else case array_index k of
             Some i \<Rightarrow> (if i < length xs then Some (xs ! i) else None)
           | None \<Rightarrow> None)"
| "property (JStr s) k =
     (if k = ''length'' then Some (JNum (Num (of_nat (length s))))
      else case array_index k of
             Some i \<Rightarrow> (if i < length s then Some (JStr [s ! i]) else None)
           | None \<Rightarrow> None)"
| "property v k = None"

subsection \<open>lodash's get\<close>

text \<open>
  \<^verbatim>\<open>stringToPath\<close> for the path syntax that the fingerprint table uses: names
  separated by dots, and bracketed indices. \<open>path_tokens cur s\<close> reads \<open>s\<close> with
  the key \<open>cur\<close> (reversed) under construction; an empty key is not emitted.
\<close>

definition emit :: "string \<Rightarrow> string list" where
  "emit cur = (if cur = [] then [] else [rev cur])"

fun path_tokens :: "string \<Rightarrow> string \<Rightarrow> string list" where
  "path_tokens cur [] = emit cur"
| "path_tokens cur (c # cs) =
     (if c = CHR ''.'' \<or> c = CHR ''['' \<or> c = CHR '']''
      then emit cur @ path_tokens [] cs
      else path_tokens (c # cur) cs)"

definition stringToPath :: "string \<Rightarrow> string list" where
  "stringToPath s = path_tokens [] s"

text \<open>
  \<^verbatim>\<open>isKey(path, object)\<close>: a path without dot or bracket is one key, and so is any
  path that is itself a property of the object.
\<close>

definition isDeepProp :: "string \<Rightarrow> bool" where
  "isDeepProp s = (CHR ''.'' \<in> set s \<or> CHR ''['' \<in> set s)"

definition isKey :: "string \<Rightarrow> json \<Rightarrow> bool" where
  "isKey path object = (\<not> isDeepProp path \<or> (object \<noteq> JNull \<and> property object path \<noteq> None))"

definition castPath :: "string \<Rightarrow> json \<Rightarrow> string list" where
  "castPath path object = (if isKey path object then [path] else stringToPath path)"

text \<open>
  The loop of \<^verbatim>\<open>baseGet\<close>:
  \<^verbatim>\<open>while (object != null && index < length) object = object[path[index++]]\<close>,
  which yields \<^verbatim>\<open>undefined\<close> when it stops before the end of the path.
\<close>

fun walk :: "json option \<Rightarrow> string list \<Rightarrow> json option" where
  "walk obj [] = obj"
| "walk None (k # ks) = None"
| "walk (Some JNull) (k # ks) = None"
| "walk (Some v) (k # ks) = walk (property v k) ks"

definition baseGet :: "json \<Rightarrow> string \<Rightarrow> json option" where
  "baseGet object path =
     (let p = castPath path object in if p = [] then None else walk (Some object) p)"

text \<open>\<^verbatim>\<open>_.get(object, path)\<close>, no default value: \<^verbatim>\<open>undefined\<close> for a \<^verbatim>\<open>null\<close> object.\<close>

definition lodash_get :: "json \<Rightarrow> string \<Rightarrow> json option" where
  "lodash_get object path = (if object = JNull then None else baseGet object path)"

subsection \<open>The fingerprint table and guessType\<close>

text \<open>\<^verbatim>\<open>Object.entries(fileTypeFingerprints)\<close>: the entries in the order of declaration.\<close>

definition fileTypeFingerprints :: "(string \<times> string list) list" where
  "fileTypeFingerprints =
     [(''fortify'', [''FVDL'', ''FVDL.EngineData.EngineVersion'', ''FVDL.UUID'']),
      (''jfrog'', [''total_count'', ''data'']),
      (''nikto'', [''banner'', ''host'', ''ip'', ''port'', ''vulnerabilities'']),
      (''sarif'', [''$schema'', ''version'', ''runs'']),
      (''snyk'', [''projectName'', ''policy'', ''summary'', ''vulnerabilities'',
                  ''vulnerabilities[0].identifiers'']),
      (''zap'', [''@generated'', ''@version'', ''site''])]"

text \<open>
  \<^verbatim>\<open>Array.prototype.reduce\<close> without an initial value: the first element starts
  the accumulator, and an empty array is a TypeError.
\<close>

fun reduce :: "('a \<Rightarrow> 'a \<Rightarrow> 'a) \<Rightarrow> 'a list \<Rightarrow> exn + 'a" where
  "reduce f [] = Inl TypeError"
| "reduce f (x # xs) = Inr (foldl f x xs)"

text \<open>\<^verbatim>\<open>paths.filter((value) => _.get(parsedJSON, value)).length\<close>\<close>

definition matches :: "json \<Rightarrow> string list \<Rightarrow> nat" where
  "matches parsedJSON paths =
     length (filter (\<lambda>value. toBoolean (lodash_get parsedJSON value)) paths)"

definition better ::
  "json \<Rightarrow> string \<times> string list \<Rightarrow> string \<times> string list \<Rightarrow> string \<times> string list" where
  "better parsedJSON a b =
     (if matches parsedJSON (snd a) > matches parsedJSON (snd b) then a else b)"

definition guessType_in :: "(string \<times> string list) list \<Rightarrow> json \<Rightarrow> exn + string" where
  "guessType_in table parsedJSON =
     (case reduce (better parsedJSON) table of
        Inl e \<Rightarrow> Inl e
      | Inr fingerprinted \<Rightarrow> Inr (fst fingerprinted))"

definition guessType :: "json \<Rightarrow> exn + string" where
  "guessType parsedJSON = guessType_in fileTypeFingerprints parsedJSON"

text \<open>
  The spec's scoring, for comparison with \<open>matches\<close>: the number of paths that
  resolve to a value other than \<^verbatim>\<open>undefined\<close>.
\<close>

definition resolvable_count :: "json \<Rightarrow> string list \<Rightarrow> nat" where
  "resolvable_count parsedJSON paths =
     length (filter (\<lambda>value. lodash_get parsedJSON value \<noteq> None) paths)"

definition resolvable_counts :: "json \<Rightarrow> (string \<times> nat) list" where
  "resolvable_counts parsedJSON =
     map (\<lambda>(name, paths). (name, resolvable_count parsedJSON paths)) fileTypeFingerprints"

definition match_counts :: "json \<Rightarrow> (string \<times> nat) list" where
  "match_counts parsedJSON =
     map (\<lambda>(name, paths). (name, matches parsedJSON paths)) fileTypeFingerprints"

subsection \<open>Strings\<close>

text \<open>
  \<^verbatim>\<open>s.indexOf(pat)\<close>: the position of the first occurrence of \<open>pat\<close> in \<open>s\<close>, or
  \<open>-1\<close>. A number is truthy when it is not zero.
\<close>

fun indexOf_from :: "nat \<Rightarrow> string \<Rightarrow> string \<Rightarrow> int" where
  "indexOf_from i [] pat = (if pat = [] then int i else - 1)"
| "indexOf_from i (c # cs) pat =
     (if prefix pat (c # cs) then int i else indexOf_from (Suc i) cs pat)"

definition indexOf :: "string \<Rightarrow> string \<Rightarrow> int" where
  "indexOf s pat = indexOf_from 0 s pat"

definition number_truthy :: "int \<Rightarrow> bool" where
  "number_truthy n = (n \<noteq> 0)"

definition endsWith :: "string \<Rightarrow> string \<Rightarrow> bool" where
  "endsWith s pat = suffix pat s"

text \<open>\<^verbatim>\<open>toLowerCase\<close> on the letters A to Z; other characters are kept.\<close>

definition lower_char :: "char \<Rightarrow> char" where
  "lower_char c =
     (if 65 \<le> (of_char c :: nat) \<and> (of_char c :: nat) \<le> 90
      then char_of ((of_char c :: nat) + 32) else c)"

definition toLowerCase :: "string \<Rightarrow> string" where
  "toLowerCase s = map lower_char s"

subsection \<open>Objects, collaborators and the state of the application\<close>

type_synonym addr = nat
type_synonym FileID = string

typedecl date
typedecl tag

datatype val =
    Undefined
  | Str string
  | DateV date
  | TagsV "tag list"
  | Json json
  | Ref addr

record obj =
  props :: "string \<Rightarrow> val option"
  frozen :: bool

text \<open>The converters of the hdf-converters library, by the name of their class.\<close>

datatype transformer =
    JfrogXrayMapper | ZapMapper | NiktoMapper | SarifMapper | SnykResults
  | NessusResults | XCCDFResultsMapper | BurpSuiteMapper | ScoutsuiteMapper
  | DBProtectMapper | NetsparkerMapper

text \<open>
  The calls made to the collaborators of the intake store, in order. A call
  that hands over an object carries the heap of that moment, through which the
  collaborator reaches the object and what it refers to.
\<close>

datatype event =
    ToHdf transformer
  | Failure string
  | ConsoleError "string list"
  | AddExecution addr "obj list"
  | AddProfile addr "obj list"
  | ToggleEvaluation FileID
  | ToggleProfile FileID

record world =
  heap :: "obj list"
  uuid_calls :: nat
  trace :: "event list"

definition init :: world where
  "init = \<lparr>heap = [], uuid_calls = 0, trace = []\<rparr>"

text \<open>One execution, or the executions of a file that bundles many.\<close>

datatype hdf = One json | Many "json list"

text \<open>
  How \<^verbatim>\<open>new Mapper(data).toHdf()\<close> completes: the constructor or the method
  throws, or the method returns a promise that rejects, or a result is returned.
\<close>

datatype 'a completion = Throws exn | Rejects exn | Returns 'a

record ConversionResult =
  v1_0_ExecJson :: "json option"
  v1_0_ProfileJson :: "json option"
  errors :: "string list"

text \<open>
  What the store takes from outside this file:
  \<^item> \<^verbatim>\<open>JSON.parse\<close> (\<open>None\<close> when it throws a SyntaxError);
  \<^item> the converters of hdf-converters;
  \<^item> inspecjs's \<^verbatim>\<open>convertFile\<close>;
  \<^item> inspecjs's contextualizers: the objects that a call creates, given the
    address of the first one, which is the object that the call returns; the
    execution or profile itself, a value in this model, is among the further
    objects when the returned object refers to it;
  \<^item> the successive results of \<^verbatim>\<open>uuid()\<close>;
  \<^item> the \<^verbatim>\<open>@Action\<close> decorator of vuex-module-decorators: the error with which an
    action's promise rejects when the body of the action with the given name
    throws or rejects with an error (the error itself under \<^verbatim>\<open>rawError\<close>, otherwise
    a new Error that quotes it).
\<close>

record externals =
  JSON_parse :: "string \<Rightarrow> json option"
  toHdf :: "transformer \<Rightarrow> string \<Rightarrow> hdf completion"
  convertFile :: "string \<Rightarrow> exn + ConversionResult"
  contextualizeEvaluation :: "json \<Rightarrow> addr \<Rightarrow> obj \<times> obj list"
  contextualizeProfile :: "json \<Rightarrow> addr \<Rightarrow> obj \<times> obj list"
  uuid :: "nat \<Rightarrow> FileID"
  action_error :: "string \<Rightarrow> exn \<Rightarrow> exn"

text \<open>
  An action: the decorator passes the result of the body on, and replaces the
  error of a body that fails. isHDF and guessType are actions as well; their
  bodies never fail (isHDF catches every exception, and the fingerprint table
  is not empty), so the decorator changes nothing there and is left out.
\<close>

definition action :: "externals \<Rightarrow> string \<Rightarrow> (exn + 'a) \<times> world \<Rightarrow> (exn + 'a) \<times> world" where
  "action X key r =
     (case r of
        (Inl e, s) \<Rightarrow> (Inl (action_error X key e), s)
      | (Inr v, s) \<Rightarrow> (Inr v, s))"

definition new_uuid :: "externals \<Rightarrow> world \<Rightarrow> FileID \<times> world" where
  "new_uuid X s = (uuid X (uuid_calls s), s\<lparr>uuid_calls := Suc (uuid_calls s)\<rparr>)"

text \<open>An object literal: a new object at the next free address.\<close>

definition new_object :: "(string \<Rightarrow> val option) \<Rightarrow> world \<Rightarrow> addr \<times> world" where
  "new_object ps s = (length (heap s), s\<lparr>heap := heap s @ [\<lparr>props = ps, frozen = False\<rparr>]\<rparr>)"

text \<open>
  The objects that a call of a library creates: the first one, which the call
  returns, at the next free address, the others behind it.
\<close>

definition new_objects :: "obj \<times> obj list \<Rightarrow> world \<Rightarrow> addr \<times> world" where
  "new_objects cells s = (length (heap s), s\<lparr>heap := heap s @ fst cells # snd cells\<rparr>)"

text \<open>
  \<^verbatim>\<open>o.k = v\<close> in strict mode: a TypeError on a frozen object, which keeps its
  properties.
\<close>

definition assign :: "addr \<Rightarrow> string \<Rightarrow> val \<Rightarrow> world \<Rightarrow> exn + world" where
  "assign a k v s =
     (if a < length (heap s) \<and> \<not> frozen (heap s ! a)
      then Inr (s\<lparr>heap := (heap s)[a := (heap s ! a)\<lparr>props := (props (heap s ! a))(k \<mapsto> v)\<rparr>]\<rparr>)
      else Inl TypeError)"

text \<open>\<^verbatim>\<open>delete o.k\<close> in strict mode.\<close>

definition delete_property :: "addr \<Rightarrow> string \<Rightarrow> world \<Rightarrow> exn + world" where
  "delete_property a k s =
     (if a < length (heap s) \<and> \<not> frozen (heap s ! a)
      then Inr (s\<lparr>heap := (heap s)[a := (heap s ! a)\<lparr>props := (props (heap s ! a))(k := None)\<rparr>]\<rparr>)
      else Inl TypeError)"

text \<open>\<^verbatim>\<open>Object.freeze(o)\<close> freezes the object itself, not the objects it refers to.\<close>

definition Object_freeze :: "addr \<Rightarrow> world \<Rightarrow> world" where
  "Object_freeze a s = s\<lparr>heap := (heap s)[a := (heap s ! a)\<lparr>frozen := True\<rparr>]\<rparr>"

text \<open>
  An attempt to mutate the heap, by any holder of a reference: an assignment, a
  deletion, a freeze or the creation of an object. The state after an attempt
  that throws is the state before it.
\<close>

datatype mutation = Assign addr string val | Delete addr string | Freeze addr | New obj

fun attempt :: "mutation \<Rightarrow> world \<Rightarrow> world" where
  "attempt (Assign a k v) s = (case assign a k v s of Inl e \<Rightarrow> s | Inr s' \<Rightarrow> s')"
| "attempt (Delete a k) s = (case delete_property a k s of Inl e \<Rightarrow> s | Inr s' \<Rightarrow> s')"
| "attempt (Freeze a) s = Object_freeze a s"
| "attempt (New ob) s = snd (new_objects (ob, []) s)"

definition attempts :: "mutation list \<Rightarrow> world \<Rightarrow> world" where
  "attempts ms s = foldl (\<lambda>s' m. attempt m s') s ms"

definition emit_event :: "event \<Rightarrow> world \<Rightarrow> world" where
  "emit_event ev s = s\<lparr>trace := trace s @ [ev]\<rparr>"

text \<open>
  Modelled from the spec: \<^verbatim>\<open>SnackbarModule.failure\<close> (store/snackbar.ts, not in
  the sources at hand), the notification collaborator: a fire-and-forget call
  that reports one failure message and has no return value. The declared
  result type of convertToHdf, which returns the result of this call, agrees:
  it is \<^verbatim>\<open>void\<close> besides the executions.
\<close>

definition SnackbarModule_failure :: "string \<Rightarrow> world \<Rightarrow> world" where
  "SnackbarModule_failure msg s = emit_event (Failure msg) s"

text \<open>
  Modelled from the spec: \<^verbatim>\<open>InspecDataModule.addExecution\<close> (store/data\_store.ts,
  not in the sources at hand), the registration store, which accepts a finished
  record wrapper. The call is recorded, with the heap that the store receives
  the wrapper in, and returns normally.
\<close>

definition InspecDataModule_addExecution :: "addr \<Rightarrow> world \<Rightarrow> world" where
  "InspecDataModule_addExecution evalFile s = emit_event (AddExecution evalFile (heap s)) s"

text \<open>
  Modelled from the spec: \<^verbatim>\<open>InspecDataModule.addProfile\<close>, the registration store
  for a profile's wrapper.
\<close>

definition InspecDataModule_addProfile :: "addr \<Rightarrow> world \<Rightarrow> world" where
  "InspecDataModule_addProfile profileFile s = emit_event (AddProfile profileFile (heap s)) s"

text \<open>
  Modelled from the spec: \<^verbatim>\<open>FilteredDataModule.toggle_evaluation\<close>
  (store/data\_filters.ts, not in the sources at hand), the selection store,
  which accepts an identifier to mark as selected. The call is recorded and
  returns normally.
\<close>

definition FilteredDataModule_toggle_evaluation :: "FileID \<Rightarrow> world \<Rightarrow> world" where
  "FilteredDataModule_toggle_evaluation uniqueId s = emit_event (ToggleEvaluation uniqueId) s"

text \<open>
  Modelled from the spec: \<^verbatim>\<open>FilteredDataModule.toggle_profile\<close>, the selection
  store for a profile's identifier.
\<close>

definition FilteredDataModule_toggle_profile :: "FileID \<Rightarrow> world \<Rightarrow> world" where
  "FilteredDataModule_toggle_profile uniqueId s = emit_event (ToggleProfile uniqueId) s"

text \<open>\<^verbatim>\<open>console.error(result.errors)\<close>, recorded in the trace as well.\<close>

definition console_error :: "string list \<Rightarrow> world \<Rightarrow> world" where
  "console_error errs s = emit_event (ConsoleError errs) s"

subsection \<open>isHDF\<close>

text \<open>
  \<^verbatim>\<open>parsed.key\<close>: reading a property of \<^verbatim>\<open>null\<close> throws a TypeError.
\<close>

definition get_member :: "json \<Rightarrow> string \<Rightarrow> exn + json option" where
  "get_member v k = (if v = JNull then Inl TypeError else Inr (property v k))"

text \<open>
  The body of the \<^verbatim>\<open>try\<close> block of isHDF. The operators \<^verbatim>\<open>||\<close> and \<^verbatim>\<open>&&\<close>
  evaluate their right operand only when needed.
\<close>

definition isHDF_try :: "externals \<Rightarrow> string \<Rightarrow> exn + bool" where
  "isHDF_try X data =
     (case JSON_parse X data of
        None \<Rightarrow> Inl SyntaxError
      | Some parsed \<Rightarrow>
          (case get_member parsed ''profiles'' of
             Inl e \<Rightarrow> Inl e
           | Inr profiles \<Rightarrow>
               if isArray profiles then Inr True
               else (case get_member parsed ''controls'' of
                       Inl e \<Rightarrow> Inl e
                     | Inr controls \<Rightarrow>
                         if \<not> toBoolean controls then Inr False
                         else (case get_member parsed ''sha256'' of
                                 Inl e \<Rightarrow> Inl e
                               | Inr sha256 \<Rightarrow> Inr (toBoolean sha256)))))"

text \<open>isHDF: the \<^verbatim>\<open>catch\<close> clause turns every exception of the body into \<^verbatim>\<open>false\<close>.\<close>

definition isHDF :: "externals \<Rightarrow> string \<Rightarrow> exn + bool" where
  "isHDF X data = (case isHDF_try X data of Inl e \<Rightarrow> Inr False | Inr b \<Rightarrow> Inr b)"

subsection \<open>convertToHdf\<close>

text \<open>The chain of comparisons on \<^verbatim>\<open>typeGuess\<close> in the \<^verbatim>\<open>try\<close> block.\<close>

definition typeGuess_transformer :: "string \<Rightarrow> transformer option" where
  "typeGuess_transformer typeGuess =
     (if typeGuess = ''jfrog'' then Some JfrogXrayMapper
      else if typeGuess = ''zap'' then Some ZapMapper
      else if typeGuess = ''nikto'' then Some NiktoMapper
      else if typeGuess = ''sarif'' then Some SarifMapper
      else if typeGuess = ''snyk'' then Some SnykResults
      else None)"

text \<open>The conditions of the \<^verbatim>\<open>catch\<close> block, on the name of the file and its text.\<close>

definition is_nessus :: "string \<Rightarrow> bool" where
  "is_nessus name = endsWith (toLowerCase name) ''.nessus''"

definition is_xccdf :: "string \<Rightarrow> string \<Rightarrow> bool" where
  \<open>is_xccdf name data =
     (indexOf data ''schemaLocation="http://checklists.nist.gov/xccdf'' \<noteq> - 1
      \<or> indexOf (toLowerCase name) ''xccdf'' \<noteq> - 1)\<close>

definition is_burp :: "string \<Rightarrow> bool" where
  "is_burp data = (indexOf data ''issues burpVersion'' \<noteq> - 1)"

definition is_scoutsuite :: "string \<Rightarrow> bool" where
  "is_scoutsuite data = (indexOf data ''scoutsuite_results'' \<noteq> - 1)"

definition is_dbprotect :: "string \<Rightarrow> bool" where
  "is_dbprotect data =
     (indexOf data ''Policy'' \<noteq> - 1
      \<and> indexOf data ''Job Name'' \<noteq> - 1
      \<and> indexOf data ''Check ID'' \<noteq> - 1
      \<and> number_truthy (indexOf data ''Result Status''))"

definition is_netsparker :: "string \<Rightarrow> bool" where
  "is_netsparker data = number_truthy (indexOf data ''netsparker-enterprise'')"

definition fallback_transformer :: "string \<Rightarrow> string \<Rightarrow> transformer option" where
  "fallback_transformer name data =
     (if is_nessus name then Some NessusResults
      else if is_xccdf name data then Some XCCDFResultsMapper
      else if is_burp data then Some BurpSuiteMapper
      else if is_scoutsuite data then Some ScoutsuiteMapper
      else if is_dbprotect data then Some DBProtectMapper
      else if is_netsparker data then Some NetsparkerMapper
      else None)"

text \<open>\<^verbatim>\<open>new Mapper(data).toHdf()\<close>, recorded in the trace.\<close>

definition run :: "externals \<Rightarrow> transformer \<Rightarrow> string \<Rightarrow> world \<Rightarrow> hdf completion \<times> world" where
  "run X t data s = (toHdf X t data, emit_event (ToHdf t) s)"

text \<open>
  The \<^verbatim>\<open>try\<close> block: \<open>None\<close> when it ends without a \<^verbatim>\<open>return\<close>. The rejection of
  the awaited guessType is an exception of the block.
\<close>

definition try_block :: "externals \<Rightarrow> string \<Rightarrow> world \<Rightarrow> hdf completion option \<times> world" where
  "try_block X data s =
     (case JSON_parse X data of
        None \<Rightarrow> (Some (Throws SyntaxError), s)
      | Some parsed \<Rightarrow>
          (case guessType parsed of
             Inl e \<Rightarrow> (Some (Throws e), s)
           | Inr typeGuess \<Rightarrow>
               (case typeGuess_transformer typeGuess of
                  None \<Rightarrow> (None, s)
                | Some t \<Rightarrow> (let (c, s') = run X t data s in (Some c, s')))))"

definition catch_block ::
  "externals \<Rightarrow> string \<Rightarrow> string \<Rightarrow> world \<Rightarrow> hdf completion option \<times> world" where
  "catch_block X name data s =
     (case fallback_transformer name data of
        None \<Rightarrow> (None, s)
      | Some t \<Rightarrow> (let (c, s') = run X t data s in (Some c, s')))"

text \<open>
  The promise of the async function for a \<^verbatim>\<open>return\<close> of a converter's result: an
  exception that leaves the function, or a rejected promise that is returned,
  rejects it.
\<close>

fun settle :: "hdf completion \<Rightarrow> exn + hdf option" where
  "settle (Throws e) = Inl e"
| "settle (Rejects e) = Inl e"
| "settle (Returns r) = Inr (Some r)"

definition no_fingerprints_matched :: "world \<Rightarrow> (exn + hdf option) \<times> world" where
  "no_fingerprints_matched s =
     (Inr None, SnackbarModule_failure ''Invalid file uploaded, no fingerprints matched.'' s)"

text \<open>
  The body of convertToHdf. An exception thrown inside the \<^verbatim>\<open>try\<close> block, by
  \<^verbatim>\<open>JSON.parse\<close> or by a converter, is dropped and starts the \<^verbatim>\<open>catch\<close> block; an
  exception thrown inside the \<^verbatim>\<open>catch\<close> block leaves the function. The result
  \<open>Inr None\<close> is \<^verbatim>\<open>undefined\<close>.
\<close>

definition convertToHdf_body ::
  "externals \<Rightarrow> string \<Rightarrow> string \<Rightarrow> world \<Rightarrow> (exn + hdf option) \<times> world" where
  "convertToHdf_body X name data s =
     (case try_block X data s of
        (Some (Throws e), s1) \<Rightarrow>
          (case catch_block X name data s1 of
             (Some c, s2) \<Rightarrow> (settle c, s2)
           | (None, s2) \<Rightarrow> no_fingerprints_matched s2)
      | (Some c, s1) \<Rightarrow> (settle c, s1)
      | (None, s1) \<Rightarrow> no_fingerprints_matched s1)"

text \<open>convertToHdf, the action.\<close>

definition convertToHdf ::
  "externals \<Rightarrow> string \<Rightarrow> string \<Rightarrow> world \<Rightarrow> (exn + hdf option) \<times> world" where
  "convertToHdf X name data s = action X ''convertToHdf'' (convertToHdf_body X name data s)"

subsection \<open>loadText and loadExecJson\<close>

record LoadOptions =
  filename :: string
  database_id :: "string option"
  createdAt :: "date option"
  updatedAt :: "date option"
  tags :: "tag list option"

record TextLoadOptions = LoadOptions +
  text_of :: string

record ExecJSONLoadOptions = LoadOptions +
  data_of :: json

fun optional :: "('a \<Rightarrow> val) \<Rightarrow> 'a option \<Rightarrow> val" where
  "optional f None = Undefined"
| "optional f (Some x) = f x"

text \<open>The properties of the object literal \<open>evalFile\<close>.\<close>

definition evalFile_props :: "FileID \<Rightarrow> 'a LoadOptions_scheme \<Rightarrow> string \<Rightarrow> val option" where
  "evalFile_props fileID options =
     [''uniqueId'' \<mapsto> Str fileID,
      ''filename'' \<mapsto> Str (filename options),
      ''database_id'' \<mapsto> optional Str (database_id options),
      ''createdAt'' \<mapsto> optional DateV (createdAt options),
      ''updatedAt'' \<mapsto> optional DateV (updatedAt options),
      ''tags'' \<mapsto> optional TagsV (tags options)]"

text \<open>The properties of the object literal \<open>profileFile\<close>.\<close>

definition profileFile_props :: "FileID \<Rightarrow> 'a LoadOptions_scheme \<Rightarrow> string \<Rightarrow> val option" where
  "profileFile_props fileID options =
     [''uniqueId'' \<mapsto> Str fileID, ''filename'' \<mapsto> Str (filename options)]"

text \<open>
  The body of loadExecJson. After the wrapper and the contextualized evaluation
  are created: the back link, the link of the wrapper to its content, the
  freeze, the registration and the selection.
\<close>

definition loadExecJson_body ::
  "externals \<Rightarrow> ExecJSONLoadOptions \<Rightarrow> world \<Rightarrow> (exn + FileID) \<times> world" where
  "loadExecJson_body X options s0 =
     (let (fileID, s1) = new_uuid X s0;
          (evalFile, s2) = new_object (evalFile_props fileID options) s1;
          (evaluation, s3) =
             new_objects (contextualizeEvaluation X (data_of options) (length (heap s2))) s2
      in case assign evaluation ''from_file'' (Ref evalFile) s3 of
           Inl e \<Rightarrow> (Inl e, s3)
         | Inr s4 \<Rightarrow>
             (case assign evalFile ''evaluation'' (Ref evaluation) s4 of
                Inl e \<Rightarrow> (Inl e, s4)
              | Inr s5 \<Rightarrow>
                  (let s6 = Object_freeze evaluation s5;
                       s7 = InspecDataModule_addExecution evalFile s6;
                       s8 = FilteredDataModule_toggle_evaluation fileID s7
                   in (Inr fileID, s8))))"

text \<open>loadExecJson, the action.\<close>

definition loadExecJson ::
  "externals \<Rightarrow> ExecJSONLoadOptions \<Rightarrow> world \<Rightarrow> (exn + FileID) \<times> world" where
  "loadExecJson X options s = action X ''loadExecJson'' (loadExecJson_body X options s)"

text \<open>The branch of loadText for an execution.\<close>

definition loadText_execution ::
  "externals \<Rightarrow> FileID \<Rightarrow> TextLoadOptions \<Rightarrow> json \<Rightarrow> world \<Rightarrow> (exn + FileID) \<times> world" where
  "loadText_execution X fileID options execJson s1 =
     (let (evalFile, s2) = new_object (evalFile_props fileID options) s1;
          (evaluation, s3) =
             new_objects (contextualizeEvaluation X execJson (length (heap s2))) s2
      in case assign evaluation ''from_file'' (Ref evalFile) s3 of
           Inl e \<Rightarrow> (Inl e, s3)
         | Inr s4 \<Rightarrow>
             (case assign evalFile ''evaluation'' (Ref evaluation) s4 of
                Inl e \<Rightarrow> (Inl e, s4)
              | Inr s5 \<Rightarrow>
                  (let s6 = Object_freeze evaluation s5;
                       s7 = InspecDataModule_addExecution evalFile s6;
                       s8 = FilteredDataModule_toggle_evaluation fileID s7
                   in (Inr fileID, s8))))"

text \<open>The branch of loadText for a profile.\<close>

definition loadText_profile ::
  "externals \<Rightarrow> FileID \<Rightarrow> TextLoadOptions \<Rightarrow> json \<Rightarrow> world \<Rightarrow> (exn + FileID) \<times> world" where
  "loadText_profile X fileID options profileJson s1 =
     (let (profileFile, s2) = new_object (profileFile_props fileID options) s1;
          (profile, s3) =
             new_objects (contextualizeProfile X profileJson (length (heap s2))) s2
      in case assign profile ''from_file'' (Ref profileFile) s3 of
           Inl e \<Rightarrow> (Inl e, s3)
         | Inr s4 \<Rightarrow>
             (case assign profileFile ''profile'' (Ref profile) s4 of
                Inl e \<Rightarrow> (Inl e, s4)
              | Inr s5 \<Rightarrow>
                  (let s6 = Object_freeze profile s5;
                       s7 = InspecDataModule_addProfile profileFile s6;
                       s8 = FilteredDataModule_toggle_profile fileID s7
                   in (Inr fileID, s8))))"

text \<open>
  \<^verbatim>\<open>if (x)\<close> on a property that may be missing: the value of the property when it
  is truthy.
\<close>

fun when_truthy :: "json option \<Rightarrow> json option" where
  "when_truthy None = None"
| "when_truthy (Some v) = (if truthy v then Some v else None)"

text \<open>The body of loadText.\<close>

definition loadText_body ::
  "externals \<Rightarrow> TextLoadOptions \<Rightarrow> world \<Rightarrow> (exn + FileID) \<times> world" where
  "loadText_body X options s0 =
     (let (fileID, s1) = new_uuid X s0
      in case convertFile X (text_of options) of
           Inl e \<Rightarrow> (Inl e, s1)
         | Inr result \<Rightarrow>
             (case when_truthy (v1_0_ExecJson result) of
                Some execJson \<Rightarrow> loadText_execution X fileID options execJson s1
              | None \<Rightarrow>
                  (case when_truthy (v1_0_ProfileJson result) of
                     Some profileJson \<Rightarrow> loadText_profile X fileID options profileJson s1
                   | None \<Rightarrow>
                       (Inl (Error ''Couldn't parse data. See developer's tools for more details.''),
                        console_error (errors result) s1))))"

text \<open>loadText, the action.\<close>

definition loadText :: "externals \<Rightarrow> TextLoadOptions \<Rightarrow> world \<Rightarrow> (exn + FileID) \<times> world" where
  "loadText X options s = action X ''loadText'' (loadText_body X options s)"

subsection \<open>loadFile\<close>

text \<open>The file handle: its name, and the text that \<^verbatim>\<open>read_file_async\<close> reads from it.\<close>

record File =
  name :: string
  content :: string

text \<open>The options that loadFile passes on: only the name of the file is set.\<close>

definition text_options :: "string \<Rightarrow> string \<Rightarrow> TextLoadOptions" where
  "text_options read fname =
     \<lparr>filename = fname, database_id = None, createdAt = None, updatedAt = None, tags = None,
      text_of = read\<rparr>"

definition exec_options :: "json \<Rightarrow> string \<Rightarrow> ExecJSONLoadOptions" where
  "exec_options evaluation fname =
     \<lparr>filename = fname, database_id = None, createdAt = None, updatedAt = None, tags = None,
      data_of = evaluation\<rparr>"

text \<open>
  \<^verbatim>\<open>Promise.all(converted.map(...))\<close>: every execution is loaded, in order, and the
  first rejection, if any, is the result.
\<close>

fun loadExecJson_all ::
  "externals \<Rightarrow> string \<Rightarrow> json list \<Rightarrow> world \<Rightarrow> (exn + FileID list) \<times> world" where
  "loadExecJson_all X fname [] s = (Inr [], s)"
| "loadExecJson_all X fname (evaluation # rest) s =
     (let (r, s1) = loadExecJson X (exec_options evaluation fname) s;
          (rs, s2) = loadExecJson_all X fname rest s1
      in (case r of
            Inl e \<Rightarrow> Inl e
          | Inr i \<Rightarrow> (case rs of Inl e \<Rightarrow> Inl e | Inr is \<Rightarrow> Inr (i # is)),
          s2))"

text \<open>The result of loadFile: \<^verbatim>\<open>FileID | FileID[]\<close>.\<close>

datatype loaded = Id FileID | Ids "FileID list"

text \<open>
  What loadFile does with the result of convertToHdf: an array
  (\<^verbatim>\<open>Array.isArray(converted)\<close>) is loaded element by element, any other truthy
  value is loaded as one execution, and a falsy value, \<^verbatim>\<open>undefined\<close> among them,
  gives the empty list.
\<close>

fun load_converted ::
  "externals \<Rightarrow> string \<Rightarrow> hdf option \<Rightarrow> world \<Rightarrow> (exn + loaded) \<times> world" where
  "load_converted X fname (Some (Many converted)) s =
     (case loadExecJson_all X fname converted s of
        (Inl e, s2) \<Rightarrow> (Inl e, s2)
      | (Inr is, s2) \<Rightarrow> (Inr (Ids is), s2))"
| "load_converted X fname (Some (One (JArr converted))) s =
     (case loadExecJson_all X fname converted s of
        (Inl e, s2) \<Rightarrow> (Inl e, s2)
      | (Inr is, s2) \<Rightarrow> (Inr (Ids is), s2))"
| "load_converted X fname (Some (One converted)) s =
     (if truthy converted
      then (case loadExecJson X (exec_options converted fname) s of
              (Inl e, s2) \<Rightarrow> (Inl e, s2)
            | (Inr i, s2) \<Rightarrow> (Inr (Id i), s2))
      else (Inr (Ids []), s))"
| "load_converted X fname None s = (Inr (Ids []), s)"

text \<open>The body of loadFile.\<close>

definition loadFile_body :: "externals \<Rightarrow> File \<Rightarrow> world \<Rightarrow> (exn + loaded) \<times> world" where
  "loadFile_body X file s =
     (let read = content file
      in case isHDF X read of
           Inl e \<Rightarrow> (Inl e, s)
         | Inr True \<Rightarrow>
             (case loadText X (text_options read (name file)) s of
                (Inl e, s1) \<Rightarrow> (Inl e, s1)
              | (Inr i, s1) \<Rightarrow> (Inr (Id i), s1))
         | Inr False \<Rightarrow>
             (case convertToHdf X (name file) read s of
                (Inl e, s1) \<Rightarrow> (Inl e, s1)
              | (Inr converted, s1) \<Rightarrow> load_converted X (name file) converted s1))"

text \<open>loadFile, the action.\<close>

definition loadFile :: "externals \<Rightarrow> File \<Rightarrow> world \<Rightarrow> (exn + loaded) \<times> world" where
  "loadFile X file s = action X ''loadFile'' (loadFile_body X file s)"

subsection \<open>An environment for the examples\<close>

text \<open>
  The object that a value of the model stands for: its members are its
  properties.
\<close>

definition object_of_json :: "json \<Rightarrow> obj" where
  "object_of_json j = \<lparr>props = (\<lambda>k. map_option Json (property j k)), frozen = False\<rparr>"

text \<open>
  A contextualizer as inspecjs has it: the object it returns refers to the
  execution or profile as its \<open>data\<close>.
\<close>

definition contextualized :: "json \<Rightarrow> addr \<Rightarrow> obj \<times> obj list" where
  "contextualized j a =
     (\<lparr>props = [''data'' \<mapsto> Ref (Suc a)], frozen = False\<rparr>, [object_of_json j])"

text \<open>
  The collaborators of one concrete run: \<^verbatim>\<open>JSON.parse\<close> has the outcome \<open>parsed\<close> on
  the text of the run, the converters complete as \<open>lib\<close> says, \<^verbatim>\<open>convertFile\<close>
  yields \<open>conv\<close>, the n-th identifier is a string of n+1 letters, and the
  decorator, without \<^verbatim>\<open>rawError\<close>, replaces the error of an action by a new one that
  names the action.
\<close>

definition externals_with ::
  "json option \<Rightarrow> (transformer \<Rightarrow> hdf completion) \<Rightarrow> (exn + ConversionResult) \<Rightarrow> externals" where
  "externals_with parsed lib conv =
     \<lparr>JSON_parse = (\<lambda>_. parsed),
      toHdf = (\<lambda>t _. lib t),
      convertFile = (\<lambda>_. conv),
      contextualizeEvaluation = contextualized,
      contextualizeProfile = contextualized,
      uuid = (\<lambda>n. replicate (Suc n) CHR ''u''),
      action_error = (\<lambda>key e. Error (''ERR_ACTION_ACCESS_UNDEFINED: Could not perform action '' @ key))\<rparr>"

definition unrecognized :: "exn + ConversionResult" where
  "unrecognized =
     Inr \<lparr>v1_0_ExecJson = None, v1_0_ProfileJson = None, errors = [''no schema matched'']\<rparr>"

text \<open>
  An execution, and the state after its direct ingestion into the empty state
  in the environment of the examples without a parsed text: the wrapper is
  object 0, the contextualized evaluation object 1 and the execution itself
  object 2.
\<close>

definition example_execution :: json where
  "example_execution = JObj [(''version'', JStr ''1.0''), (''profiles'', JArr [])]"

definition after_ingestion :: world where
  "after_ingestion =
     snd (loadExecJson (externals_with None (\<lambda>t. Returns (One JNull)) unrecognized)
            (exec_options example_execution ''converted.json'') init)"

section \<open>Properties\<close>

subsection \<open>guessType\<close>

lemma walk_None: "walk None ks = None"
  by (cases ks) simp_all

lemma walk_append: "walk obj (xs @ ys) = walk (walk obj xs) ys"
  by (induction obj xs rule: walk.induct) (simp_all add: walk_None)

lemma table_not_empty: "fileTypeFingerprints \<noteq> []"
  by (simp add: fileTypeFingerprints_def)

lemma table_names_distinct: "distinct (map fst fileTypeFingerprints)"
  by (simp add: fileTypeFingerprints_def)

text \<open>
  The reduction keeps an entry only while its count is strictly greater than
  the next one's: the result has the greatest count, and every entry after it
  has a strictly smaller one.
\<close>

lemma foldl_better_index:
  "T \<noteq> [] \<Longrightarrow>
   \<exists>k < length T. foldl (better d) (hd T) (tl T) = T ! k
     \<and> (\<forall>i < k. matches d (snd (T ! i)) \<le> matches d (snd (T ! k)))
     \<and> (\<forall>i. k < i \<and> i < length T \<longrightarrow> matches d (snd (T ! i)) < matches d (snd (T ! k)))"
proof (induction T rule: rev_induct)
  case Nil
  then show ?case by simp
next
  case (snoc y ys)
  let ?s = "\<lambda>e. matches d (snd e)"
  show ?case
  proof (cases "ys = []")
    case True
    then show ?thesis by simp
  next
    case ne: False
    with snoc obtain k where k: "k < length ys" "foldl (better d) (hd ys) (tl ys) = ys ! k"
      and lo: "\<forall>i < k. ?s (ys ! i) \<le> ?s (ys ! k)"
      and hi: "\<forall>i. k < i \<and> i < length ys \<longrightarrow> ?s (ys ! i) < ?s (ys ! k)"
      by blast
    have step: "foldl (better d) (hd (ys @ [y])) (tl (ys @ [y])) = better d (ys ! k) y"
      using k ne by simp
    show ?thesis
    proof (cases "?s (ys ! k) > ?s y")
      case True
      then have r: "foldl (better d) (hd (ys @ [y])) (tl (ys @ [y])) = (ys @ [y]) ! k"
        using step k by (simp add: better_def nth_append)
      have "\<forall>i < k. ?s ((ys @ [y]) ! i) \<le> ?s ((ys @ [y]) ! k)"
        using lo k by (simp add: nth_append)
      moreover have "\<forall>i. k < i \<and> i < length (ys @ [y]) \<longrightarrow>
          ?s ((ys @ [y]) ! i) < ?s ((ys @ [y]) ! k)"
      proof (intro allI impI)
        fix i assume i: "k < i \<and> i < length (ys @ [y])"
        show "?s ((ys @ [y]) ! i) < ?s ((ys @ [y]) ! k)"
        proof (cases "i < length ys")
          case True
          with i hi k show ?thesis by (simp add: nth_append)
        next
          case False
          with i have "i = length ys" by simp
          with True k show ?thesis by (simp add: nth_append)
        qed
      qed
      ultimately show ?thesis
        using r k by (intro exI[of _ k]) simp
    next
      case False
      then have r: "foldl (better d) (hd (ys @ [y])) (tl (ys @ [y])) = (ys @ [y]) ! length ys"
        using step by (simp add: better_def)
      have "\<forall>i < length ys. ?s ((ys @ [y]) ! i) \<le> ?s ((ys @ [y]) ! length ys)"
      proof (intro allI impI)
        fix i assume i: "i < length ys"
        have "?s (ys ! i) \<le> ?s (ys ! k)"
          using lo hi i by (cases "i < k"; cases "i = k") (auto simp: less_imp_le)
        with False i show "?s ((ys @ [y]) ! i) \<le> ?s ((ys @ [y]) ! length ys)"
          by (simp add: nth_append)
      qed
      then show ?thesis
        using r by (intro exI[of _ "length ys"]) simp
    qed
  qed
qed

lemma guessType_in_index:
  assumes "T \<noteq> []"
  shows "\<exists>k < length T. guessType_in T d = Inr (fst (T ! k))
     \<and> (\<forall>i < length T. matches d (snd (T ! i)) \<le> matches d (snd (T ! k)))
     \<and> (\<forall>i. k < i \<and> i < length T \<longrightarrow> matches d (snd (T ! i)) < matches d (snd (T ! k)))"
proof -
  from foldl_better_index[OF assms, of d] obtain k where k: "k < length T"
    and r: "foldl (better d) (hd T) (tl T) = T ! k"
    and lo: "\<forall>i < k. matches d (snd (T ! i)) \<le> matches d (snd (T ! k))"
    and hi: "\<forall>i. k < i \<and> i < length T \<longrightarrow> matches d (snd (T ! i)) < matches d (snd (T ! k))"
    by blast
  from assms obtain x xs where T: "T = x # xs" by (cases T) auto
  have "guessType_in T d = Inr (fst (T ! k))"
    using r unfolding T guessType_in_def by simp
  moreover have "\<forall>i < length T. matches d (snd (T ! i)) \<le> matches d (snd (T ! k))"
  proof (intro allI impI)
    fix i assume "i < length T"
    then show "matches d (snd (T ! i)) \<le> matches d (snd (T ! k))"
      using lo hi by (cases "i < k"; cases "i = k") (auto simp: less_imp_le)
  qed
  ultimately show ?thesis using k hi by blast
qed

lemma guessType_index:
  "\<exists>k < length fileTypeFingerprints.
     guessType d = Inr (fst (fileTypeFingerprints ! k))
     \<and> (\<forall>i < length fileTypeFingerprints.
           matches d (snd (fileTypeFingerprints ! i)) \<le> matches d (snd (fileTypeFingerprints ! k)))
     \<and> (\<forall>i. k < i \<and> i < length fileTypeFingerprints \<longrightarrow>
           matches d (snd (fileTypeFingerprints ! i)) < matches d (snd (fileTypeFingerprints ! k)))"
  unfolding guessType_def by (rule guessType_in_index[OF table_not_empty])

lemma guessType_total: "\<exists>name. guessType d = Inr name"
  using guessType_index[of d] by blast

text \<open>
  Claim C1, as stated, fails. This document has a value other than \<^verbatim>\<open>undefined\<close>
  at all 3 of sarif's 3 paths and at 1 of snyk's 5 paths, and at no other path
  of the table; yet guessType returns snyk, because the three sarif values
  (an empty string, zero and \<^verbatim>\<open>null\<close>) are falsy and the filter drops them.
\<close>

theorem guessType_resolvable_count_counterexample:
  "resolvable_counts
     (JObj [(''$schema'', JStr ''''), (''version'', JNum (Num 0)), (''runs'', JNull),
            (''projectName'', JStr ''x'')])
     = [(''fortify'', 0), (''jfrog'', 0), (''nikto'', 0), (''sarif'', 3), (''snyk'', 1), (''zap'', 0)]
   \<and> guessType
     (JObj [(''$schema'', JStr ''''), (''version'', JNum (Num 0)), (''runs'', JNull),
            (''projectName'', JStr ''x'')]) = Inr ''snyk''"
  by code_simp

text \<open>
  Claim C1, amended. For every parsed JSON value, guessType returns the name of
  a format of the fingerprint table whose paths have the greatest count of
  truthy values under lodash's get: a path that resolves to \<^verbatim>\<open>null\<close>, \<^verbatim>\<open>false\<close>,
  zero or the empty string does not count. The lookup is safe: when the walk
  along a proper prefix of a path ends in \<^verbatim>\<open>undefined\<close> or \<^verbatim>\<open>null\<close>, the result
  is \<^verbatim>\<open>undefined\<close>, not an error. In particular a document with truthy values at
  all 3 of format A's 3 paths, at exactly 1 of format B's 5 paths and at fewer
  than 3 paths of every other format yields A.
\<close>

theorem guessType_greatest_truthy_count:
  "(\<exists>name paths. guessType doc = Inr name \<and> (name, paths) \<in> set fileTypeFingerprints
      \<and> (\<forall>(n, ps) \<in> set fileTypeFingerprints. matches doc ps \<le> matches doc paths))
   \<and> (\<forall>path pre post. \<not> isKey path doc \<and> stringToPath path = pre @ post \<and> post \<noteq> []
        \<and> (walk (Some doc) pre = None \<or> walk (Some doc) pre = Some JNull)
        \<longrightarrow> lodash_get doc path = None)
   \<and> (\<forall>A pa B pb. (A, pa) \<in> set fileTypeFingerprints \<and> length pa = 3 \<and> matches doc pa = 3
        \<and> (B, pb) \<in> set fileTypeFingerprints \<and> length pb = 5 \<and> matches doc pb = 1
        \<and> (\<forall>(n, ps) \<in> set fileTypeFingerprints. n \<noteq> A \<longrightarrow> matches doc ps < 3)
        \<longrightarrow> guessType doc = Inr A)"
proof (intro conjI allI impI)
  let ?T = fileTypeFingerprints
  from guessType_index[of doc] obtain k where k: "k < length ?T"
    and r: "guessType doc = Inr (fst (?T ! k))"
    and mx: "\<forall>i < length ?T. matches doc (snd (?T ! i)) \<le> matches doc (snd (?T ! k))"
    by blast
  have mem: "(fst (?T ! k), snd (?T ! k)) \<in> set ?T"
    using k by simp
  have all: "\<forall>(n, ps) \<in> set ?T. matches doc ps \<le> matches doc (snd (?T ! k))"
  proof (clarify)
    fix n ps assume "(n, ps) \<in> set ?T"
    then obtain i where "i < length ?T" "?T ! i = (n, ps)"
      by (auto simp: in_set_conv_nth)
    with mx show "matches doc ps \<le> matches doc (snd (?T ! k))"
      by (metis snd_conv)
  qed
  show "\<exists>name paths. guessType doc = Inr name \<and> (name, paths) \<in> set ?T
      \<and> (\<forall>(n, ps) \<in> set ?T. matches doc ps \<le> matches doc paths)"
    using r mem all by blast
  {
    fix A pa B pb
    assume h: "(A, pa) \<in> set ?T \<and> length pa = 3 \<and> matches doc pa = 3
        \<and> (B, pb) \<in> set ?T \<and> length pb = 5 \<and> matches doc pb = 1
        \<and> (\<forall>(n, ps) \<in> set ?T. n \<noteq> A \<longrightarrow> matches doc ps < 3)"
    have "3 \<le> matches doc (snd (?T ! k))"
      using h all by fastforce
    moreover have "fst (?T ! k) \<noteq> A \<longrightarrow> matches doc (snd (?T ! k)) < 3"
      using h mem by blast
    ultimately have "fst (?T ! k) = A" by auto
    then show "guessType doc = Inr A" using r by simp
  }
  {
    fix path pre post
    assume h: "\<not> isKey path doc \<and> stringToPath path = pre @ post \<and> post \<noteq> []
        \<and> (walk (Some doc) pre = None \<or> walk (Some doc) pre = Some JNull)"
    then obtain q qs where post: "post = q # qs" by (cases post) auto
    have "walk (Some doc) (pre @ post) = None"
      using h by (auto simp: walk_append walk_None post)
    then show "lodash_get doc path = None"
      using h by (simp add: lodash_get_def baseGet_def castPath_def)
  }
qed

text \<open>
  The theorem at a SARIF report that also has a projectName: sarif is A, snyk
  is B, and the path \<^verbatim>\<open>FVDL.UUID\<close> stops at the missing key \<^verbatim>\<open>FVDL\<close>.
\<close>

theorem guessType_greatest_truthy_count_witness:
  "guessType (JObj [(''$schema'', JStr ''s''), (''version'', JStr ''2.1.0''), (''runs'', JArr []),
                    (''projectName'', JStr ''x'')]) = Inr ''sarif''
   \<and> lodash_get (JObj [(''$schema'', JStr ''s''), (''version'', JStr ''2.1.0''), (''runs'', JArr []),
                    (''projectName'', JStr ''x'')]) ''FVDL.UUID'' = None"
proof -
  let ?doc = "JObj [(''$schema'', JStr ''s''), (''version'', JStr ''2.1.0''), (''runs'', JArr []),
                    (''projectName'', JStr ''x'')]"
  let ?pa = "[''$schema'', ''version'', ''runs'']"
  let ?pb = "[''projectName'', ''policy'', ''summary'', ''vulnerabilities'',
                  ''vulnerabilities[0].identifiers'']"
  have h1: "(''sarif'', ?pa) \<in> set fileTypeFingerprints \<and> length ?pa = 3 \<and> matches ?doc ?pa = 3
        \<and> (''snyk'', ?pb) \<in> set fileTypeFingerprints \<and> length ?pb = 5 \<and> matches ?doc ?pb = 1
        \<and> (\<forall>(n, ps) \<in> set fileTypeFingerprints. n \<noteq> ''sarif'' \<longrightarrow> matches ?doc ps < 3)"
    by code_simp
  have h2: "\<not> isKey ''FVDL.UUID'' ?doc \<and> stringToPath ''FVDL.UUID'' = [''FVDL''] @ [''UUID'']
        \<and> [''UUID''] \<noteq> []
        \<and> (walk (Some ?doc) [''FVDL''] = None \<or> walk (Some ?doc) [''FVDL''] = Some JNull)"
    by code_simp
  note t = guessType_greatest_truthy_count[of ?doc]
  have g1: "guessType ?doc = Inr ''sarif''"
    by (rule t[THEN conjunct2, THEN conjunct2, THEN spec, THEN spec, THEN spec, THEN spec,
          THEN mp, OF h1])
  have g2: "lodash_get ?doc ''FVDL.UUID'' = None"
    by (rule t[THEN conjunct2, THEN conjunct1, THEN spec, THEN spec, THEN spec, THEN mp, OF h2])
  from g1 g2 show ?thesis by (rule conjI)
qed

text \<open>
  Claim C2, as stated, fails. jfrog and zap both have two matches on this
  document, more than any other format; guessType returns zap, which is
  declared after jfrog.
\<close>

theorem guessType_tie_counterexample:
  "match_counts
     (JObj [(''total_count'', JNum (Num 1)), (''data'', JArr []),
            (''@generated'', JStr ''now''), (''@version'', JStr ''2'')])
     = [(''fortify'', 0), (''jfrog'', 2), (''nikto'', 0), (''sarif'', 0), (''snyk'', 0), (''zap'', 2)]
   \<and> guessType
     (JObj [(''total_count'', JNum (Num 1)), (''data'', JArr []),
            (''@generated'', JStr ''now''), (''@version'', JStr ''2'')]) = Inr ''zap''"
  by code_simp

text \<open>
  Claim C2, amended. When two formats of the fingerprint table have equal match
  counts on a parsed JSON value, guessType does not return the one declared
  earlier: the comparison keeps the accumulated entry only when its count is
  strictly greater, so the later entry replaces it on a tie. Hence guessType
  returns the format declared last among those with the greatest count.
\<close>

theorem guessType_tie_returns_later:
  "(\<forall>i j. i < j \<and> j < length fileTypeFingerprints
        \<and> matches doc (snd (fileTypeFingerprints ! i)) = matches doc (snd (fileTypeFingerprints ! j))
        \<longrightarrow> guessType doc \<noteq> Inr (fst (fileTypeFingerprints ! i)))
   \<and> (\<forall>j. j < length fileTypeFingerprints
        \<and> (\<forall>i < length fileTypeFingerprints.
              matches doc (snd (fileTypeFingerprints ! i)) \<le> matches doc (snd (fileTypeFingerprints ! j)))
        \<and> (\<forall>i. j < i \<and> i < length fileTypeFingerprints \<longrightarrow>
              matches doc (snd (fileTypeFingerprints ! i)) \<noteq> matches doc (snd (fileTypeFingerprints ! j)))
        \<longrightarrow> guessType doc = Inr (fst (fileTypeFingerprints ! j)))"
proof (intro conjI allI impI)
  let ?T = fileTypeFingerprints
  let ?s = "\<lambda>i. matches doc (snd (?T ! i))"
  from guessType_index[of doc] obtain k where k: "k < length ?T"
    and r: "guessType doc = Inr (fst (?T ! k))"
    and mx: "\<forall>i < length ?T. ?s i \<le> ?s k"
    and hi: "\<forall>i. k < i \<and> i < length ?T \<longrightarrow> ?s i < ?s k"
    by blast
  {
    fix i j
    assume h: "i < j \<and> j < length ?T \<and> ?s i = ?s j"
    show "guessType doc \<noteq> Inr (fst (?T ! i))"
    proof
      assume "guessType doc = Inr (fst (?T ! i))"
      with r have "map fst ?T ! k = map fst ?T ! i"
        using k h by simp
      moreover have "(map fst ?T ! k = map fst ?T ! i) = (k = i)"
        using table_names_distinct by (rule nth_eq_iff_index_eq) (use k h in simp_all)
      ultimately have "k = i" by (rule iffD1[rotated])
      with hi h show False by auto
    qed
  }
  {
    fix j
    assume h: "j < length ?T \<and> (\<forall>i < length ?T. ?s i \<le> ?s j)
        \<and> (\<forall>i. j < i \<and> i < length ?T \<longrightarrow> ?s i \<noteq> ?s j)"
    have "\<not> k < j" using hi h k by (metis not_le)
    moreover have "\<not> j < k" using h mx k by (metis le_antisym)
    ultimately have "k = j" by simp
    then show "guessType doc = Inr (fst (?T ! j))" using r by simp
  }
qed

text \<open>
  The theorem at the document of the counterexample: jfrog (entry 1) and zap
  (entry 5) tie with the greatest count, and zap is returned.
\<close>

theorem guessType_tie_returns_later_witness:
  "guessType
     (JObj [(''total_count'', JNum (Num 1)), (''data'', JArr []),
            (''@generated'', JStr ''now''), (''@version'', JStr ''2'')])
   \<noteq> Inr (fst (fileTypeFingerprints ! 1))
   \<and> guessType
     (JObj [(''total_count'', JNum (Num 1)), (''data'', JArr []),
            (''@generated'', JStr ''now''), (''@version'', JStr ''2'')])
   = Inr (fst (fileTypeFingerprints ! 5))"
proof -
  let ?doc = "JObj [(''total_count'', JNum (Num 1)), (''data'', JArr []),
            (''@generated'', JStr ''now''), (''@version'', JStr ''2'')]"
  let ?T = fileTypeFingerprints
  have h1: "(1::nat) < 5 \<and> 5 < length ?T
        \<and> matches ?doc (snd (?T ! 1)) = matches ?doc (snd (?T ! 5))"
    by code_simp
  have len: "length ?T = 6" by code_simp
  have m: "map (\<lambda>e. matches ?doc (snd e)) ?T = [0, 2, 0, 0, 0, 2]" by code_simp
  have "\<forall>i < 6. matches ?doc (snd (?T ! i)) \<le> matches ?doc (snd (?T ! 5))"
  proof (intro allI impI)
    fix i :: nat assume i: "i < 6"
    then have "matches ?doc (snd (?T ! i)) = map (\<lambda>e. matches ?doc (snd e)) ?T ! i"
      using len by simp
    moreover have "matches ?doc (snd (?T ! 5)) = map (\<lambda>e. matches ?doc (snd e)) ?T ! 5"
      using len by simp
    ultimately show "matches ?doc (snd (?T ! i)) \<le> matches ?doc (snd (?T ! 5))"
      unfolding m using i by (auto simp: less_Suc_eq numeral_eq_Suc)
  qed
  then have h2: "5 < length ?T
        \<and> (\<forall>i < length ?T. matches ?doc (snd (?T ! i)) \<le> matches ?doc (snd (?T ! 5)))
        \<and> (\<forall>i. 5 < i \<and> i < length ?T \<longrightarrow>
              matches ?doc (snd (?T ! i)) \<noteq> matches ?doc (snd (?T ! 5)))"
    using len by simp
  note t = guessType_tie_returns_later[of ?doc]
  have g1: "guessType ?doc \<noteq> Inr (fst (?T ! 1))"
    by (rule t[THEN conjunct1, THEN spec, THEN spec, THEN mp, OF h1])
  have g2: "guessType ?doc = Inr (fst (?T ! 5))"
    by (rule t[THEN conjunct2, THEN spec, THEN mp, OF h2])
  from g1 g2 show ?thesis by (rule conjI)
qed

subsection \<open>isHDF\<close>

text \<open>
  Claim C3, as stated, fails. The text parses to a document that has both a
  controls and a sha256 property, and isHDF returns \<^verbatim>\<open>false\<close>: the test is on the
  truthiness of the two values, and the empty string is falsy.
\<close>

theorem isHDF_falsy_fields_counterexample:
  \<open>property (JObj [(''controls'', JArr []), (''sha256'', JStr '''')]) ''controls'' \<noteq> None
   \<and> property (JObj [(''controls'', JArr []), (''sha256'', JStr '''')]) ''sha256'' \<noteq> None
   \<and> isHDF (externals_with (Some (JObj [(''controls'', JArr []), (''sha256'', JStr '''')]))
               (\<lambda>t. Returns (One JNull)) unrecognized)
        ''{"controls":[],"sha256":""}'' = Inr False\<close>
  by code_simp

text \<open>
  Claim C3, amended. For every input string, isHDF does not throw. It returns
  \<^verbatim>\<open>false\<close> when the string fails to parse as JSON. When it parses, isHDF returns
  \<^verbatim>\<open>true\<close> exactly when the parsed value has an array as its profiles property,
  or its controls and sha256 properties are both truthy (a value that is
  \<^verbatim>\<open>null\<close>, \<^verbatim>\<open>false\<close>, zero or the empty string does not count as present). In
  particular every parsed document with truthy controls and sha256 yields
  \<^verbatim>\<open>true\<close>, whatever its profiles.
\<close>

theorem isHDF_never_throws_truthy_fields:
  "isHDF X data =
     Inr (case JSON_parse X data of
            None \<Rightarrow> False
          | Some parsed \<Rightarrow>
              isArray (property parsed ''profiles'')
              \<or> (toBoolean (property parsed ''controls'')
                  \<and> toBoolean (property parsed ''sha256'')))
   \<and> (\<forall>parsed. JSON_parse X data = Some parsed
          \<and> toBoolean (property parsed ''controls'') \<and> toBoolean (property parsed ''sha256'')
         \<longrightarrow> isHDF X data = Inr True)"
proof -
  have main: "isHDF X data =
     Inr (case JSON_parse X data of
            None \<Rightarrow> False
          | Some parsed \<Rightarrow>
              isArray (property parsed ''profiles'')
              \<or> (toBoolean (property parsed ''controls'')
                  \<and> toBoolean (property parsed ''sha256'')))"
  proof (cases "JSON_parse X data")
    case None
    then show ?thesis by (simp add: isHDF_def isHDF_try_def)
  next
    case (Some parsed)
    show ?thesis
    proof (cases "parsed = JNull")
      case True
      with Some show ?thesis by (simp add: isHDF_def isHDF_try_def get_member_def)
    next
      case False
      with Some show ?thesis by (simp add: isHDF_def isHDF_try_def get_member_def)
    qed
  qed
  show ?thesis
    by (simp add: main)
qed

text \<open>The theorem at a profile whose profiles property is a number.\<close>

theorem isHDF_never_throws_truthy_fields_witness:
  \<open>isHDF (externals_with
            (Some (JObj [(''controls'', JArr [JObj []]), (''sha256'', JStr ''abc''),
                         (''profiles'', JNum (Num 5))]))
            (\<lambda>t. Returns (One JNull)) unrecognized)
      ''{"controls":[{}],"sha256":"abc","profiles":5}'' = Inr True\<close>
proof -
  let ?doc = "JObj [(''controls'', JArr [JObj []]), (''sha256'', JStr ''abc''),
                      (''profiles'', JNum (Num 5))]"
  let ?X = "externals_with (Some ?doc) (\<lambda>t. Returns (One JNull)) unrecognized"
  let ?data = \<open>''{"controls":[{}],"sha256":"abc","profiles":5}''\<close>
  have h: "JSON_parse ?X ?data = Some ?doc
      \<and> toBoolean (property ?doc ''controls'') \<and> toBoolean (property ?doc ''sha256'')"
    by (simp add: externals_with_def member_def)
  show ?thesis
    by (rule isHDF_never_throws_truthy_fields[THEN conjunct2, THEN spec, THEN mp, OF h])
qed

subsection \<open>indexOf\<close>

text \<open>
  \<open>indexOf\<close> is \<open>-1\<close> exactly when the pattern does not occur, zero exactly when
  the text starts with the pattern, and positive otherwise.
\<close>

lemma indexOf_from_absent: "indexOf_from i s pat = - 1 \<longleftrightarrow> \<not> sublist pat s"
proof (induction s arbitrary: i)
  case Nil
  then show ?case by simp
next
  case (Cons c cs)
  show ?case
  proof (cases "prefix pat (c # cs)")
    case True
    then show ?thesis by (auto simp: sublist_Cons_right)
  next
    case False
    then show ?thesis using Cons[of "Suc i"] by (simp add: sublist_Cons_right)
  qed
qed

lemma indexOf_from_range: "indexOf_from i s pat = - 1 \<or> int i \<le> indexOf_from i s pat"
proof (induction s arbitrary: i)
  case Nil
  then show ?case by simp
next
  case (Cons c cs)
  show ?case using Cons[of "Suc i"] by auto
qed

lemma indexOf_absent: "indexOf s pat = - 1 \<longleftrightarrow> \<not> sublist pat s"
  by (simp add: indexOf_def indexOf_from_absent)

lemma indexOf_zero: "indexOf s pat = 0 \<longleftrightarrow> prefix pat s"
proof (cases s)
  case Nil
  then show ?thesis by (simp add: indexOf_def)
next
  case (Cons c cs)
  show ?thesis
  proof (cases "prefix pat (c # cs)")
    case True
    then show ?thesis by (simp add: indexOf_def Cons)
  next
    case False
    then show ?thesis
      using indexOf_from_range[of "Suc 0" cs pat] by (auto simp: indexOf_def Cons)
  qed
qed

lemma indexOf_range: "indexOf s pat = - 1 \<or> 0 \<le> indexOf s pat"
  using indexOf_from_range[of 0 s pat] by (simp add: indexOf_def)

subsection \<open>convertToHdf\<close>

lemmas convert_defs = convertToHdf_def convertToHdf_body_def action_def try_block_def
  catch_block_def run_def no_fingerprints_matched_def SnackbarModule_failure_def emit_event_def

text \<open>
  When the text is not JSON, the converter that the fallback chooses is run and
  its completion is the result of the body.
\<close>

lemma convertToHdf_fallback:
  "JSON_parse X data = None \<Longrightarrow> fallback_transformer fname data = Some t \<Longrightarrow>
   convertToHdf X fname data s =
     action X ''convertToHdf'' (settle (toHdf X t data), s\<lparr>trace := trace s @ [ToHdf t]\<rparr>)"
  by (simp add: convert_defs)

text \<open>
  The DBProtect condition compares three of its four indices with \<open>-1\<close> and
  tests the fourth, of \<^verbatim>\<open>Result Status\<close>, for truthiness: it asks for the first
  three markers and for a text that does not start with the fourth.
\<close>

lemma is_dbprotect_iff:
  "is_dbprotect data \<longleftrightarrow>
     sublist ''Policy'' data \<and> sublist ''Job Name'' data \<and> sublist ''Check ID'' data
     \<and> \<not> prefix ''Result Status'' data"
  by (simp add: is_dbprotect_def number_truthy_def indexOf_absent indexOf_zero)

text \<open>
  Claim C4 (the input goes to the DBProtect converter exactly when the text
  contains all four markers) against the code: a text that does not parse as
  JSON, matches no earlier branch and contains \<^verbatim>\<open>Policy\<close>, \<^verbatim>\<open>Job Name\<close> and
  \<^verbatim>\<open>Check ID\<close> but not \<^verbatim>\<open>Result Status\<close> is converted by DBProtectMapper.
\<close>

theorem dbprotect_routed_without_result_status:
  "indexOf ''Policy,Job Name,Check ID'' ''Result Status'' = - 1
   \<and> fallback_transformer ''scan.csv'' ''Policy,Job Name,Check ID'' = Some DBProtectMapper
   \<and> trace (snd (convertToHdf (externals_with None (\<lambda>t. Returns (One JNull)) unrecognized)
                   ''scan.csv'' ''Policy,Job Name,Check ID'' init))
       = [ToHdf DBProtectMapper]"
proof -
  let ?X = "externals_with None (\<lambda>t. Returns (One JNull)) unrecognized"
  have ix: "indexOf ''Policy,Job Name,Check ID'' ''Result Status'' = - 1" by code_simp
  have fb: "fallback_transformer ''scan.csv'' ''Policy,Job Name,Check ID'' = Some DBProtectMapper"
    by code_simp
  have p: "JSON_parse ?X ''Policy,Job Name,Check ID'' = None"
    by (simp add: externals_with_def)
  have "trace (snd (convertToHdf ?X ''scan.csv'' ''Policy,Job Name,Check ID'' init))
      = [ToHdf DBProtectMapper]"
    unfolding convertToHdf_fallback[OF p fb]
    by (simp add: action_def externals_with_def init_def)
  with ix fb show ?thesis by simp
qed

text \<open>
  In the other direction, a text that contains all four markers and starts
  with \<^verbatim>\<open>Result Status\<close> is not taken for DBProtect.
\<close>

lemma result_status_first_not_dbprotect:
  "fallback_transformer ''scan.csv'' ''Result Status,Policy,Job Name,Check ID'' = Some NetsparkerMapper"
  by code_simp

text \<open>
  The last condition tests the index of \<^verbatim>\<open>netsparker-enterprise\<close> for
  truthiness. When JSON parsing fails and no earlier branch matches, the text
  goes to NetsparkerMapper unless it starts with the marker: that is, when the
  marker is absent or first occurs at a positive position.
\<close>

lemma is_netsparker_iff: "is_netsparker data \<longleftrightarrow> \<not> prefix ''netsparker-enterprise'' data"
  by (simp add: is_netsparker_def number_truthy_def indexOf_zero)

lemma netsparker_routed_unless_prefix:
  assumes "JSON_parse X data = None"
    and "\<not> is_nessus fname" and "\<not> is_xccdf fname data" and "\<not> is_burp data"
    and "\<not> is_scoutsuite data" and "\<not> is_dbprotect data"
  shows "convertToHdf X fname data s =
           (if prefix ''netsparker-enterprise'' data
            then (Inr None, s\<lparr>trace := trace s @ [Failure ''Invalid file uploaded, no fingerprints matched.'']\<rparr>)
            else action X ''convertToHdf''
                   (settle (toHdf X NetsparkerMapper data),
                    s\<lparr>trace := trace s @ [ToHdf NetsparkerMapper]\<rparr>))
         \<and> (prefix ''netsparker-enterprise'' data \<longleftrightarrow> indexOf data ''netsparker-enterprise'' = 0)
         \<and> (\<not> prefix ''netsparker-enterprise'' data \<longleftrightarrow>
               \<not> sublist ''netsparker-enterprise'' data \<or> 0 < indexOf data ''netsparker-enterprise'')"
proof (intro conjI)
  have fb: "fallback_transformer fname data =
      (if prefix ''netsparker-enterprise'' data then None else Some NetsparkerMapper)"
    using assms by (simp add: fallback_transformer_def is_netsparker_iff)
  show "convertToHdf X fname data s =
           (if prefix ''netsparker-enterprise'' data
            then (Inr None, s\<lparr>trace := trace s @ [Failure ''Invalid file uploaded, no fingerprints matched.'']\<rparr>)
            else action X ''convertToHdf''
                   (settle (toHdf X NetsparkerMapper data),
                    s\<lparr>trace := trace s @ [ToHdf NetsparkerMapper]\<rparr>))"
    using assms(1) fb by (simp add: convert_defs)
  show "prefix ''netsparker-enterprise'' data \<longleftrightarrow> indexOf data ''netsparker-enterprise'' = 0"
    by (simp add: indexOf_zero)
  show "\<not> prefix ''netsparker-enterprise'' data \<longleftrightarrow>
               \<not> sublist ''netsparker-enterprise'' data \<or> 0 < indexOf data ''netsparker-enterprise''"
    using indexOf_range[of data "''netsparker-enterprise''"]
      indexOf_zero[of data "''netsparker-enterprise''"]
      indexOf_absent[of data "''netsparker-enterprise''"]
    by auto
qed

text \<open>
  Claim C5 (the input goes to the Netsparker converter exactly when the marker
  is present at a non-zero index, a match at position 0 being treated like an
  absent marker) against the code: a text without the marker, for which
  \<open>indexOf\<close> is \<open>-1\<close>, is converted by NetsparkerMapper.
\<close>

theorem netsparker_routed_when_marker_absent:
  "indexOf ''hello'' ''netsparker-enterprise'' = - 1
   \<and> fst (convertToHdf (externals_with None (\<lambda>t. Returns (One JNull)) unrecognized)
                   ''notes.txt'' ''hello'' init) = Inr (Some (One JNull))
   \<and> trace (snd (convertToHdf (externals_with None (\<lambda>t. Returns (One JNull)) unrecognized)
                   ''notes.txt'' ''hello'' init))
       = [ToHdf NetsparkerMapper]"
proof -
  let ?X = "externals_with None (\<lambda>t. Returns (One JNull)) unrecognized"
  have ix: "indexOf ''hello'' ''netsparker-enterprise'' = - 1" by code_simp
  have fb: "fallback_transformer ''notes.txt'' ''hello'' = Some NetsparkerMapper"
    by code_simp
  have p: "JSON_parse ?X ''hello'' = None"
    by (simp add: externals_with_def)
  have "convertToHdf ?X ''notes.txt'' ''hello'' init
      = (Inr (Some (One JNull)), init\<lparr>trace := trace init @ [ToHdf NetsparkerMapper]\<rparr>)"
    unfolding convertToHdf_fallback[OF p fb]
    by (simp add: action_def externals_with_def)
  then have "fst (convertToHdf ?X ''notes.txt'' ''hello'' init) = Inr (Some (One JNull))"
    and "trace (snd (convertToHdf ?X ''notes.txt'' ''hello'' init)) = [ToHdf NetsparkerMapper]"
    by (simp_all add: init_def)
  with ix show ?thesis by simp
qed

text \<open>
  An exception of a converter that the \<^verbatim>\<open>catch\<close> block runs leaves convertToHdf,
  as the decorator renders it;
  an exception of a converter that the \<^verbatim>\<open>try\<close> block runs is caught, and the
  fallback converter, if there is one, is run instead.
\<close>

lemma catch_block_throw_propagates:
  "JSON_parse X data = None \<Longrightarrow> fallback_transformer fname data = Some t \<Longrightarrow>
   toHdf X t data = Throws e \<Longrightarrow>
   convertToHdf X fname data s =
     (Inl (action_error X ''convertToHdf'' e), s\<lparr>trace := trace s @ [ToHdf t]\<rparr>)"
  by (simp add: convert_defs)

lemma try_block_throw_caught:
  "JSON_parse X data = Some parsed \<Longrightarrow> guessType parsed = Inr g \<Longrightarrow>
   typeGuess_transformer g = Some t \<Longrightarrow> toHdf X t data = Throws e \<Longrightarrow>
   fallback_transformer fname data = Some t' \<Longrightarrow>
   convertToHdf X fname data s =
     action X ''convertToHdf''
       (settle (toHdf X t' data), s\<lparr>trace := trace s @ [ToHdf t, ToHdf t']\<rparr>)"
  by (simp add: convert_defs)

text \<open>
  Claim C7 (a converter's failure is not caught and is not redirected into a
  fallback path) against the code: the text parses as JSON and is guessed to be
  a JFrog Xray report, JfrogXrayMapper throws, and convertToHdf returns the
  result of NetsparkerMapper; the error is lost.
\<close>

theorem jfrog_failure_redirected_to_fallback:
  \<open>toHdf (externals_with
            (Some (JObj [(''total_count'', JNum (Num 1)), (''data'', JArr [])]))
            (\<lambda>t. if t = JfrogXrayMapper then Throws (Error ''not an Xray report'')
                 else Returns (One JNull))
            unrecognized)
      JfrogXrayMapper ''{"total_count":1,"data":[]}'' = Throws (Error ''not an Xray report'')
   \<and> fst (convertToHdf
        (externals_with
            (Some (JObj [(''total_count'', JNum (Num 1)), (''data'', JArr [])]))
            (\<lambda>t. if t = JfrogXrayMapper then Throws (Error ''not an Xray report'')
                 else Returns (One JNull))
            unrecognized)
        ''xray.json'' ''{"total_count":1,"data":[]}'' init)
      = Inr (Some (One JNull))
   \<and> trace (snd (convertToHdf
        (externals_with
            (Some (JObj [(''total_count'', JNum (Num 1)), (''data'', JArr [])]))
            (\<lambda>t. if t = JfrogXrayMapper then Throws (Error ''not an Xray report'')
                 else Returns (One JNull))
            unrecognized)
        ''xray.json'' ''{"total_count":1,"data":[]}'' init))
      = [ToHdf JfrogXrayMapper, ToHdf NetsparkerMapper]\<close>
proof -
  let ?doc = "JObj [(''total_count'', JNum (Num 1)), (''data'', JArr [])]"
  let ?X = "externals_with (Some ?doc)
            (\<lambda>t. if t = JfrogXrayMapper then Throws (Error ''not an Xray report'')
                 else Returns (One JNull))
            unrecognized"
  let ?data = \<open>''{"total_count":1,"data":[]}''\<close>
  have p: "JSON_parse ?X ?data = Some ?doc" by (simp add: externals_with_def)
  have g: "guessType ?doc = Inr ''jfrog''" by code_simp
  have t: "typeGuess_transformer ''jfrog'' = Some JfrogXrayMapper"
    by (simp add: typeGuess_transformer_def)
  have th: "toHdf ?X JfrogXrayMapper ?data = Throws (Error ''not an Xray report'')"
    by (simp add: externals_with_def)
  have fb: "fallback_transformer ''xray.json'' ?data = Some NetsparkerMapper" by code_simp
  have "convertToHdf ?X ''xray.json'' ?data init
      = (Inr (Some (One JNull)),
         init\<lparr>trace := trace init @ [ToHdf JfrogXrayMapper, ToHdf NetsparkerMapper]\<rparr>)"
    unfolding try_block_throw_caught[OF p g t th fb]
    by (simp add: action_def externals_with_def)
  then have "fst (convertToHdf ?X ''xray.json'' ?data init) = Inr (Some (One JNull))"
    and "trace (snd (convertToHdf ?X ''xray.json'' ?data init))
      = [ToHdf JfrogXrayMapper, ToHdf NetsparkerMapper]"
    by (simp_all add: init_def)
  with th show ?thesis by simp
qed

text \<open>
  Claim C10. The JSON branch has a converter for exactly the five guesses
  jfrog, zap, nikto, sarif and snyk. For every text that parses as JSON and
  whose guessed type is fortify, convertToHdf runs no converter, reports
  "Invalid file uploaded, no fingerprints matched." once and returns no
  execution.
\<close>

theorem fortify_guess_not_dispatched:
  "(\<forall>g. typeGuess_transformer g \<noteq> None \<longleftrightarrow>
          g \<in> {''jfrog'', ''zap'', ''nikto'', ''sarif'', ''snyk''})
   \<and> (JSON_parse X data = Some parsed \<and> guessType parsed = Inr ''fortify'' \<longrightarrow>
        convertToHdf X fname data s =
          (Inr None,
           s\<lparr>trace := trace s @ [Failure ''Invalid file uploaded, no fingerprints matched.'']\<rparr>))"
  by (auto simp: convert_defs typeGuess_transformer_def)

text \<open>The theorem at a document with all three fortify fingerprints.\<close>

theorem fortify_guess_not_dispatched_witness:
  \<open>convertToHdf
     (externals_with
        (Some (JObj [(''FVDL'', JObj [(''UUID'', JStr ''u''),
                        (''EngineData'', JObj [(''EngineVersion'', JStr ''20.1'')])])]))
        (\<lambda>t. Returns (One JNull)) unrecognized)
     ''audit.json'' ''{"FVDL":{"UUID":"u","EngineData":{"EngineVersion":"20.1"}}}'' init
   = (Inr None, init\<lparr>trace := trace init @ [Failure ''Invalid file uploaded, no fingerprints matched.'']\<rparr>)\<close>
proof -
  let ?doc = "JObj [(''FVDL'', JObj [(''UUID'', JStr ''u''),
                        (''EngineData'', JObj [(''EngineVersion'', JStr ''20.1'')])])]"
  let ?X = "externals_with (Some ?doc) (\<lambda>t. Returns (One JNull)) unrecognized"
  have g: "guessType ?doc = Inr ''fortify''" by code_simp
  let ?data = \<open>''{"FVDL":{"UUID":"u","EngineData":{"EngineVersion":"20.1"}}}''\<close>
  have p: "JSON_parse ?X ?data = Some ?doc" by (simp add: externals_with_def)
  from p g have h: "JSON_parse ?X ?data = Some ?doc \<and> guessType ?doc = Inr ''fortify''"
    by (rule conjI)
  show ?thesis
    by (rule fortify_guess_not_dispatched[THEN conjunct2, THEN mp, OF h])
qed

subsection \<open>loadFile and loadText\<close>

lemma isHDF_None: "JSON_parse X data = None \<Longrightarrow> isHDF X data = Inr False"
  by (simp add: isHDF_def isHDF_try_def)

text \<open>
  Claim C6. When convertToHdf matches no format, either because the text does
  not parse as JSON and no condition of the fallback holds, or because it
  parses and the guessed type has no converter, it sends exactly one failure
  message to the notification collaborator, does not throw and returns
  \<^verbatim>\<open>undefined\<close>; loadFile, which runs it when the text is not HDF, then returns
  the empty list of identifiers.
\<close>

theorem no_format_matched_reports_once:
  assumes "(JSON_parse X (content file) = None
            \<and> fallback_transformer (name file) (content file) = None)
         \<or> (\<exists>parsed g. JSON_parse X (content file) = Some parsed
              \<and> isHDF X (content file) = Inr False
              \<and> guessType parsed = Inr g \<and> typeGuess_transformer g = None)"
  shows "convertToHdf X (name file) (content file) s =
           (Inr None,
            s\<lparr>trace := trace s @ [Failure ''Invalid file uploaded, no fingerprints matched.'']\<rparr>)
       \<and> loadFile X file s =
           (Inr (Ids []),
            s\<lparr>trace := trace s @ [Failure ''Invalid file uploaded, no fingerprints matched.'']\<rparr>)"
proof -
  let ?s' = "s\<lparr>trace := trace s @ [Failure ''Invalid file uploaded, no fingerprints matched.'']\<rparr>"
  from assms have hdf: "isHDF X (content file) = Inr False"
    by (auto simp: isHDF_None)
  from assms have conv: "convertToHdf X (name file) (content file) s = (Inr None, ?s')"
    by (auto simp: convert_defs)
  have "loadFile X file s = (Inr (Ids []), ?s')"
    by (simp add: loadFile_def loadFile_body_def action_def hdf conv)
  with conv show ?thesis by simp
qed

text \<open>
  The theorem at a text that starts with \<^verbatim>\<open>netsparker-enterprise\<close>, the only
  texts that the fallback leaves unmatched, and at a Fortify document.
\<close>

theorem no_format_matched_reports_once_witness:
  \<open>loadFile (externals_with None (\<lambda>t. Returns (One JNull)) unrecognized)
      \<lparr>name = ''scan.txt'', content = ''netsparker-enterprise report''\<rparr> init
    = (Inr (Ids []),
       init\<lparr>trace := trace init @ [Failure ''Invalid file uploaded, no fingerprints matched.'']\<rparr>)
   \<and> loadFile
      (externals_with
         (Some (JObj [(''FVDL'', JObj [(''UUID'', JStr ''u''),
                        (''EngineData'', JObj [(''EngineVersion'', JStr ''20.1'')])])]))
         (\<lambda>t. Returns (One JNull)) unrecognized)
      \<lparr>name = ''audit.json'',
       content = ''{"FVDL":{"UUID":"u","EngineData":{"EngineVersion":"20.1"}}}''\<rparr> init
    = (Inr (Ids []),
       init\<lparr>trace := trace init @ [Failure ''Invalid file uploaded, no fingerprints matched.'']\<rparr>)\<close>
proof -
  let ?X1 = "externals_with None (\<lambda>t. Returns (One JNull)) unrecognized"
  let ?f1 = "\<lparr>name = ''scan.txt'', content = ''netsparker-enterprise report''\<rparr>"
  let ?doc = "JObj [(''FVDL'', JObj [(''UUID'', JStr ''u''),
                        (''EngineData'', JObj [(''EngineVersion'', JStr ''20.1'')])])]"
  let ?X2 = "externals_with (Some ?doc) (\<lambda>t. Returns (One JNull)) unrecognized"
  let ?f2 = \<open>\<lparr>name = ''audit.json'',
       content = ''{"FVDL":{"UUID":"u","EngineData":{"EngineVersion":"20.1"}}}''\<rparr>\<close>
  have "JSON_parse ?X1 (content ?f1) = None" by (simp add: externals_with_def)
  moreover have "fallback_transformer (name ?f1) (content ?f1) = None" by code_simp
  ultimately have h1: "(JSON_parse ?X1 (content ?f1) = None
            \<and> fallback_transformer (name ?f1) (content ?f1) = None)
         \<or> (\<exists>parsed g. JSON_parse ?X1 (content ?f1) = Some parsed
              \<and> isHDF ?X1 (content ?f1) = Inr False
              \<and> guessType parsed = Inr g \<and> typeGuess_transformer g = None)"
    by blast
  have "JSON_parse ?X2 (content ?f2) = Some ?doc" by (simp add: externals_with_def)
  moreover have "isHDF ?X2 (content ?f2) = Inr False"
    by (simp add: externals_with_def isHDF_def isHDF_try_def get_member_def member_def)
  moreover have "guessType ?doc = Inr ''fortify''" by code_simp
  moreover have "typeGuess_transformer ''fortify'' = None" by code_simp
  ultimately have h2: "(JSON_parse ?X2 (content ?f2) = None
            \<and> fallback_transformer (name ?f2) (content ?f2) = None)
         \<or> (\<exists>parsed g. JSON_parse ?X2 (content ?f2) = Some parsed
              \<and> isHDF ?X2 (content ?f2) = Inr False
              \<and> guessType parsed = Inr g \<and> typeGuess_transformer g = None)"
    by blast
  show ?thesis
    using no_format_matched_reports_once[OF h1, of init, THEN conjunct2]
      no_format_matched_reports_once[OF h2, of init, THEN conjunct2]
    by (rule conjI)
qed

lemma when_truthy_falsy: "\<not> toBoolean v \<Longrightarrow> when_truthy v = None"
  by (cases v) simp_all

lemma when_truthy_Some: "truthy v \<Longrightarrow> when_truthy (Some v) = Some v"
  by simp

text \<open>
  Claim C8. When \<^verbatim>\<open>convertFile\<close> recognizes the text as neither an execution nor
  a profile (neither property of its result is truthy), the body of loadText
  throws the error "Couldn't parse data. See developer's tools for more
  details." after it has logged the parser's errors, and the action loadText
  fails with that error as the \<^verbatim>\<open>@Action\<close> decorator renders it. On this path no
  object is created, and neither the registration store nor the selection store
  is called: the state changes by the drawn identifier and the logged errors
  only. A loadFile that handed the text to loadText fails as well, with the
  error rendered once more by its own decorator.
\<close>

theorem loadText_unrecognized_throws:
  assumes "convertFile X (text_of options) = Inr result"
    and "\<not> toBoolean (v1_0_ExecJson result)" and "\<not> toBoolean (v1_0_ProfileJson result)"
  shows "loadText_body X options s =
           (Inl (Error ''Couldn't parse data. See developer's tools for more details.''),
            s\<lparr>uuid_calls := Suc (uuid_calls s),
              trace := trace s @ [ConsoleError (errors result)]\<rparr>)
       \<and> loadText X options s =
           (Inl (action_error X ''loadText''
                  (Error ''Couldn't parse data. See developer's tools for more details.'')),
            s\<lparr>uuid_calls := Suc (uuid_calls s),
              trace := trace s @ [ConsoleError (errors result)]\<rparr>)
       \<and> heap (snd (loadText X options s)) = heap s
       \<and> (\<forall>file. isHDF X (content file) = Inr True
                  \<and> options = text_options (content file) (name file)
            \<longrightarrow> loadFile X file s =
                  (Inl (action_error X ''loadFile''
                         (action_error X ''loadText''
                           (Error ''Couldn't parse data. See developer's tools for more details.''))),
                   s\<lparr>uuid_calls := Suc (uuid_calls s),
                     trace := trace s @ [ConsoleError (errors result)]\<rparr>))"
proof -
  have body: "loadText_body X options s =
           (Inl (Error ''Couldn't parse data. See developer's tools for more details.''),
            s\<lparr>uuid_calls := Suc (uuid_calls s),
              trace := trace s @ [ConsoleError (errors result)]\<rparr>)"
    using assms
    by (simp add: loadText_body_def new_uuid_def console_error_def emit_event_def
        when_truthy_falsy)
  then have lt: "loadText X options s =
           (Inl (action_error X ''loadText''
                  (Error ''Couldn't parse data. See developer's tools for more details.'')),
            s\<lparr>uuid_calls := Suc (uuid_calls s),
              trace := trace s @ [ConsoleError (errors result)]\<rparr>)"
    by (simp add: loadText_def action_def)
  from body lt show ?thesis
    by (auto simp: loadFile_def loadFile_body_def action_def)
qed

text \<open>
  The theorem at a text that isHDF accepts and \<^verbatim>\<open>convertFile\<close> does not
  recognize, with the decorator of the example environment.
\<close>

theorem loadText_unrecognized_throws_witness:
  \<open>loadFile
      (externals_with (Some (JObj [(''profiles'', JArr [])])) (\<lambda>t. Returns (One JNull))
         unrecognized)
      \<lparr>name = ''bad.json'', content = ''{"profiles":[]}''\<rparr> init
    = (Inl (Error ''ERR_ACTION_ACCESS_UNDEFINED: Could not perform action loadFile''),
       init\<lparr>uuid_calls := Suc (uuid_calls init),
            trace := trace init @ [ConsoleError [''no schema matched'']]\<rparr>)
   \<and> loadText_body
      (externals_with (Some (JObj [(''profiles'', JArr [])])) (\<lambda>t. Returns (One JNull))
         unrecognized)
      (text_options ''{"profiles":[]}'' ''bad.json'') init
    = (Inl (Error ''Couldn't parse data. See developer's tools for more details.''),
       init\<lparr>uuid_calls := Suc (uuid_calls init),
            trace := trace init @ [ConsoleError [''no schema matched'']]\<rparr>)\<close>
proof -
  let ?X = "externals_with (Some (JObj [(''profiles'', JArr [])])) (\<lambda>t. Returns (One JNull))
         unrecognized"
  let ?f = \<open>\<lparr>name = ''bad.json'', content = ''{"profiles":[]}''\<rparr>\<close>
  let ?o = "text_options (content ?f) (name ?f)"
  let ?r = "\<lparr>v1_0_ExecJson = None, v1_0_ProfileJson = None, errors = [''no schema matched'']\<rparr>"
  have a: "convertFile ?X (text_of ?o) = Inr ?r"
    by (simp add: externals_with_def unrecognized_def)
  have b: "\<not> toBoolean (v1_0_ExecJson ?r)" and c: "\<not> toBoolean (v1_0_ProfileJson ?r)"
    by simp_all
  have "isHDF ?X (content ?f) = Inr True"
    by (simp add: externals_with_def isHDF_def isHDF_try_def get_member_def member_def)
  then have h: "isHDF ?X (content ?f) = Inr True \<and> ?o = text_options (content ?f) (name ?f)"
    by simp
  note t = loadText_unrecognized_throws[OF a b c, of init]
  have g1: "loadFile ?X ?f init =
      (Inl (action_error ?X ''loadFile''
             (action_error ?X ''loadText''
               (Error ''Couldn't parse data. See developer's tools for more details.''))),
       init\<lparr>uuid_calls := Suc (uuid_calls init),
            trace := trace init @ [ConsoleError (errors ?r)]\<rparr>)"
    by (rule t[THEN conjunct2, THEN conjunct2, THEN conjunct2, THEN spec, THEN mp, OF h])
  have e: "action_error ?X ''loadFile''
             (action_error ?X ''loadText''
               (Error ''Couldn't parse data. See developer's tools for more details.''))
      = Error ''ERR_ACTION_ACCESS_UNDEFINED: Could not perform action loadFile''"
    by (simp add: externals_with_def)
  have g2: "loadText_body ?X ?o init =
      (Inl (Error ''Couldn't parse data. See developer's tools for more details.''),
       init\<lparr>uuid_calls := Suc (uuid_calls init),
            trace := trace init @ [ConsoleError (errors ?r)]\<rparr>)"
    by (rule t[THEN conjunct1])
  from g1 g2 show ?thesis
    unfolding e by simp
qed


subsection \<open>The frozen content object\<close>

text \<open>
  A frozen object rejects assignment and deletion, and no attempt to mutate the
  heap, on whatever address, changes it.
\<close>

lemma frozen_assign: "frozen (heap s ! a) \<Longrightarrow> assign a k v s = Inl TypeError"
  by (simp add: assign_def)

lemma frozen_delete_property: "frozen (heap s ! a) \<Longrightarrow> delete_property a k s = Inl TypeError"
  by (simp add: delete_property_def)

lemma frozen_again: "frozen ob \<Longrightarrow> ob\<lparr>frozen := True\<rparr> = ob"
  by (cases ob) simp

lemma attempt_keeps_frozen:
  assumes "c < length (heap s)" and "frozen (heap s ! c)"
  shows "c < length (heap (attempt m s)) \<and> heap (attempt m s) ! c = heap s ! c"
proof (cases m)
  case (Assign a k v)
  show ?thesis
  proof (cases "a = c")
    case True
    with assms Assign show ?thesis by (simp add: assign_def)
  next
    case False
    with assms Assign show ?thesis by (simp add: assign_def)
  qed
next
  case (Delete a k)
  show ?thesis
  proof (cases "a = c")
    case True
    with assms Delete show ?thesis by (simp add: delete_property_def)
  next
    case False
    with assms Delete show ?thesis by (simp add: delete_property_def)
  qed
next
  case (Freeze a)
  show ?thesis
  proof (cases "a = c")
    case True
    with assms Freeze show ?thesis by (simp add: Object_freeze_def frozen_again)
  next
    case False
    with assms Freeze show ?thesis by (simp add: Object_freeze_def)
  qed
next
  case (New ob)
  with assms show ?thesis by (simp add: new_objects_def nth_append)
qed

lemma attempts_keep_frozen:
  "c < length (heap s) \<Longrightarrow> frozen (heap s ! c) \<Longrightarrow>
   c < length (heap (attempts ms s)) \<and> heap (attempts ms s) ! c = heap s ! c"
proof (induction ms arbitrary: s)
  case Nil
  then show ?case by (simp add: attempts_def)
next
  case (Cons m ms)
  from attempt_keeps_frozen[OF Cons.prems, of m]
  have a: "c < length (heap (attempt m s))" and b: "heap (attempt m s) ! c = heap s ! c"
    by simp_all
  from b Cons.prems have "frozen (heap (attempt m s) ! c)" by simp
  from Cons.IH[OF a this] b show ?case by (simp add: attempts_def)
qed

text \<open>
  The state after each of the three ingestion paths, when the contextualizer
  returns an object that is not frozen: the wrapper and the objects of the
  contextualizer are the new objects, the content object has its back link and
  is frozen, and the registration store is called with the heap in that state.
\<close>

lemmas ingest_defs = new_uuid_def new_object_def new_objects_def assign_def Object_freeze_def
  InspecDataModule_addExecution_def InspecDataModule_addProfile_def
  FilteredDataModule_toggle_evaluation_def FilteredDataModule_toggle_profile_def
  emit_event_def nth_append list_update_append

lemma loadExecJson_state:
  assumes "\<not> frozen (fst (contextualizeEvaluation X (data_of options) (Suc (length (heap s)))))"
  shows "loadExecJson X options s =
     (Inr (uuid X (uuid_calls s)),
      s\<lparr>uuid_calls := Suc (uuid_calls s),
        heap := heap s @
          \<lparr>props = (evalFile_props (uuid X (uuid_calls s)) options)
                     (''evaluation'' \<mapsto> Ref (Suc (length (heap s)))),
           frozen = False\<rparr>
          # (fst (contextualizeEvaluation X (data_of options) (Suc (length (heap s)))))
              \<lparr>props := (props (fst (contextualizeEvaluation X (data_of options)
                                       (Suc (length (heap s))))))
                         (''from_file'' \<mapsto> Ref (length (heap s))),
               frozen := True\<rparr>
          # snd (contextualizeEvaluation X (data_of options) (Suc (length (heap s)))),
        trace := trace s @
          [AddExecution (length (heap s))
             (heap s @
              \<lparr>props = (evalFile_props (uuid X (uuid_calls s)) options)
                         (''evaluation'' \<mapsto> Ref (Suc (length (heap s)))),
               frozen = False\<rparr>
              # (fst (contextualizeEvaluation X (data_of options) (Suc (length (heap s)))))
                  \<lparr>props := (props (fst (contextualizeEvaluation X (data_of options)
                                           (Suc (length (heap s))))))
                             (''from_file'' \<mapsto> Ref (length (heap s))),
                   frozen := True\<rparr>
              # snd (contextualizeEvaluation X (data_of options) (Suc (length (heap s))))),
           ToggleEvaluation (uuid X (uuid_calls s))]\<rparr>)"
  using assms
  by (simp add: loadExecJson_def loadExecJson_body_def action_def ingest_defs)

lemma loadText_execution_state:
  assumes "\<not> frozen (fst (contextualizeEvaluation X execJson (Suc (length (heap s)))))"
  shows "(let w = length (heap s);
              cells = contextualizeEvaluation X execJson (Suc w);
              h = heap s @
                  \<lparr>props = (evalFile_props fileID options)(''evaluation'' \<mapsto> Ref (Suc w)),
                   frozen = False\<rparr>
                  # (fst cells)\<lparr>props := (props (fst cells))(''from_file'' \<mapsto> Ref w),
                                frozen := True\<rparr>
                  # snd cells
          in loadText_execution X fileID options execJson s =
               (Inr fileID,
                s\<lparr>heap := h, trace := trace s @ [AddExecution w h, ToggleEvaluation fileID]\<rparr>))"
  using assms
  by (simp add: Let_def loadText_execution_def ingest_defs)

lemma loadText_profile_state:
  assumes "\<not> frozen (fst (contextualizeProfile X profileJson (Suc (length (heap s)))))"
  shows "(let w = length (heap s);
              cells = contextualizeProfile X profileJson (Suc w);
              h = heap s @
                  \<lparr>props = (profileFile_props fileID options)(''profile'' \<mapsto> Ref (Suc w)),
                   frozen = False\<rparr>
                  # (fst cells)\<lparr>props := (props (fst cells))(''from_file'' \<mapsto> Ref w),
                                frozen := True\<rparr>
                  # snd cells
          in loadText_profile X fileID options profileJson s =
               (Inr fileID,
                s\<lparr>heap := h, trace := trace s @ [AddProfile w h, ToggleProfile fileID]\<rparr>))"
  using assms
  by (simp add: Let_def loadText_profile_def ingest_defs)

text \<open>The state after the ingestion of the example, and the selectors at the examples.\<close>

lemma after_ingestion_state:
  "after_ingestion =
     init\<lparr>uuid_calls := Suc 0,
          heap := [\<lparr>props = (evalFile_props ''u'' (exec_options example_execution ''converted.json''))
                             (''evaluation'' \<mapsto> Ref (Suc 0)),
                    frozen = False\<rparr>,
                   \<lparr>props = [''data'' \<mapsto> Ref (Suc (Suc 0)), ''from_file'' \<mapsto> Ref 0],
                    frozen = True\<rparr>,
                   object_of_json example_execution],
          trace := [AddExecution 0
                      [\<lparr>props = (evalFile_props ''u'' (exec_options example_execution ''converted.json''))
                             (''evaluation'' \<mapsto> Ref (Suc 0)),
                    frozen = False\<rparr>,
                   \<lparr>props = [''data'' \<mapsto> Ref (Suc (Suc 0)), ''from_file'' \<mapsto> Ref 0],
                    frozen = True\<rparr>,
                   object_of_json example_execution],
                    ToggleEvaluation ''u'']\<rparr>"
  by (simp add: after_ingestion_def loadExecJson_state externals_with_def contextualized_def
      init_def exec_options_def)

lemma example_execution_properties:
  "property example_execution ''version'' = Some (JStr ''1.0'')"
  "property example_execution ''profiles'' = Some (JArr [])"
  by code_simp+

lemma externals_with_simps:
  "uuid (externals_with parsed lib conv) 0 = ''u''"
  "contextualizeEvaluation (externals_with parsed lib conv) = contextualized"
  "contextualizeProfile (externals_with parsed lib conv) = contextualized"
  "convertFile (externals_with parsed lib conv) t = conv"
  by (simp_all add: externals_with_def)

lemma init_simps: "heap init = []" "uuid_calls init = 0" "trace init = []"
  by (simp_all add: init_def)

lemma options_simps:
  "data_of (exec_options j n) = j" "text_of (text_options t n) = t"
  by (simp_all add: exec_options_def text_options_def)

text \<open>
  Claim C9, as stated, fails. After loadExecJson has ingested, registered and
  selected an execution, the contextualized evaluation (object 1) is frozen, but
  the execution that it refers to as its \<open>data\<close> (object 2) is not: an assignment
  to its version and the deletion of its profiles succeed in place. Nor is the
  wrapper (object 0), the record that the registration store received: its file
  name is replaced in place. \<^verbatim>\<open>Object.freeze\<close> freezes the one object it is given.
\<close>

theorem content_shallowly_frozen_counterexample:
  "fst (loadExecJson (externals_with None (\<lambda>t. Returns (One JNull)) unrecognized)
          (exec_options example_execution ''converted.json'') init) = Inr ''u''
   \<and> trace after_ingestion = [AddExecution 0 (heap after_ingestion), ToggleEvaluation ''u'']
   \<and> props (heap after_ingestion ! 0) ''evaluation'' = Some (Ref 1)
   \<and> props (heap after_ingestion ! 0) ''filename'' = Some (Str ''converted.json'')
   \<and> frozen (heap after_ingestion ! 1)
   \<and> props (heap after_ingestion ! 1) ''data'' = Some (Ref 2)
   \<and> props (heap after_ingestion ! 2) ''version'' = Some (Json (JStr ''1.0''))
   \<and> (\<exists>s'. assign 2 ''version'' (Json (JStr ''2.0'')) after_ingestion = Inr s'
           \<and> props (heap s' ! 2) ''version'' = Some (Json (JStr ''2.0''))
           \<and> heap s' ! 2 \<noteq> heap after_ingestion ! 2)
   \<and> (\<exists>s'. delete_property 2 ''profiles'' after_ingestion = Inr s'
           \<and> props (heap s' ! 2) ''profiles'' = None)
   \<and> (\<exists>s'. assign 0 ''filename'' (Str ''renamed.json'') after_ingestion = Inr s'
           \<and> props (heap s' ! 0) ''filename'' = Some (Str ''renamed.json''))"
proof (intro conjI)
  show "fst (loadExecJson (externals_with None (\<lambda>t. Returns (One JNull)) unrecognized)
          (exec_options example_execution ''converted.json'') init) = Inr ''u''"
    by (simp add: loadExecJson_state externals_with_def contextualized_def init_def)
  show "trace after_ingestion = [AddExecution 0 (heap after_ingestion), ToggleEvaluation ''u'']"
    by (simp add: after_ingestion_state)
  show "props (heap after_ingestion ! 0) ''evaluation'' = Some (Ref 1)"
    by (simp add: after_ingestion_state)
  show "props (heap after_ingestion ! 0) ''filename'' = Some (Str ''converted.json'')"
    by (simp add: after_ingestion_state evalFile_props_def exec_options_def)
  show "frozen (heap after_ingestion ! 1)"
    by (simp add: after_ingestion_state)
  show "props (heap after_ingestion ! 1) ''data'' = Some (Ref 2)"
    by (simp add: after_ingestion_state)
  show "props (heap after_ingestion ! 2) ''version'' = Some (Json (JStr ''1.0''))"
    by (simp add: after_ingestion_state object_of_json_def example_execution_properties)
  show "\<exists>s'. assign 2 ''version'' (Json (JStr ''2.0'')) after_ingestion = Inr s'
           \<and> props (heap s' ! 2) ''version'' = Some (Json (JStr ''2.0''))
           \<and> heap s' ! 2 \<noteq> heap after_ingestion ! 2"
    by (auto simp: after_ingestion_state assign_def object_of_json_def
        example_execution_properties dest: fun_cong[of _ _ "''version''"])
  show "\<exists>s'. delete_property 2 ''profiles'' after_ingestion = Inr s'
           \<and> props (heap s' ! 2) ''profiles'' = None"
    by (simp add: after_ingestion_state delete_property_def object_of_json_def)
  show "\<exists>s'. assign 0 ''filename'' (Str ''renamed.json'') after_ingestion = Inr s'
           \<and> props (heap s' ! 0) ''filename'' = Some (Str ''renamed.json'')"
    by (simp add: after_ingestion_state assign_def)
qed

text \<open>
  Claim C9, amended. On every successful ingestion, by loadExecJson or by
  either branch of loadText (the recognized execution or profile being truthy),
  the object that the contextualizer returns, not frozen at that point, gets its
  back link \<open>from_file\<close> to the wrapper and is frozen, and only then is the
  wrapper handed to the registration store: the call carries a heap in which
  the content object is frozen, and the selection follows it. The freeze is
  that of \<^verbatim>\<open>Object.freeze\<close>, on the content object alone: the wrapper and the
  objects that the contextualizer created behind the content object are left
  as they were. In every state a frozen object rejects each assignment to and
  each deletion of one of its properties with a TypeError, and no sequence of
  assignments, deletions, freezes and object creations, on whatever addresses,
  changes it: content that differs is another object.
\<close>

theorem content_frozen_before_registration:
  "(\<not> frozen (fst (contextualizeEvaluation X (data_of execOptions) (Suc (length (heap s)))))
    \<longrightarrow> (let fileID = uuid X (uuid_calls s);
              w = length (heap s);
              cells = contextualizeEvaluation X (data_of execOptions) (Suc w);
              h = heap s @
                  \<lparr>props = (evalFile_props fileID execOptions)(''evaluation'' \<mapsto> Ref (Suc w)),
                   frozen = False\<rparr>
                  # (fst cells)\<lparr>props := (props (fst cells))(''from_file'' \<mapsto> Ref w),
                                frozen := True\<rparr>
                  # snd cells
          in loadExecJson X execOptions s =
               (Inr fileID,
                s\<lparr>uuid_calls := Suc (uuid_calls s), heap := h,
                  trace := trace s @ [AddExecution w h, ToggleEvaluation fileID]\<rparr>)))
   \<and> (\<forall>result execJson.
        convertFile X (text_of textOptions) = Inr result
        \<and> v1_0_ExecJson result = Some execJson \<and> truthy execJson
        \<and> \<not> frozen (fst (contextualizeEvaluation X execJson (Suc (length (heap s)))))
        \<longrightarrow> (let fileID = uuid X (uuid_calls s);
                  w = length (heap s);
                  cells = contextualizeEvaluation X execJson (Suc w);
                  h = heap s @
                      \<lparr>props = (evalFile_props fileID textOptions)(''evaluation'' \<mapsto> Ref (Suc w)),
                       frozen = False\<rparr>
                      # (fst cells)\<lparr>props := (props (fst cells))(''from_file'' \<mapsto> Ref w),
                                    frozen := True\<rparr>
                      # snd cells
              in loadText X textOptions s =
                   (Inr fileID,
                    s\<lparr>uuid_calls := Suc (uuid_calls s), heap := h,
                      trace := trace s @ [AddExecution w h, ToggleEvaluation fileID]\<rparr>)))
   \<and> (\<forall>result profileJson.
        convertFile X (text_of textOptions) = Inr result
        \<and> \<not> toBoolean (v1_0_ExecJson result)
        \<and> v1_0_ProfileJson result = Some profileJson \<and> truthy profileJson
        \<and> \<not> frozen (fst (contextualizeProfile X profileJson (Suc (length (heap s)))))
        \<longrightarrow> (let fileID = uuid X (uuid_calls s);
                  w = length (heap s);
                  cells = contextualizeProfile X profileJson (Suc w);
                  h = heap s @
                      \<lparr>props = (profileFile_props fileID textOptions)(''profile'' \<mapsto> Ref (Suc w)),
                       frozen = False\<rparr>
                      # (fst cells)\<lparr>props := (props (fst cells))(''from_file'' \<mapsto> Ref w),
                                    frozen := True\<rparr>
                      # snd cells
              in loadText X textOptions s =
                   (Inr fileID,
                    s\<lparr>uuid_calls := Suc (uuid_calls s), heap := h,
                      trace := trace s @ [AddProfile w h, ToggleProfile fileID]\<rparr>)))
   \<and> (\<forall>s' c. c < length (heap s') \<and> frozen (heap s' ! c)
        \<longrightarrow> (\<forall>k v. assign c k v s' = Inl TypeError)
            \<and> (\<forall>k. delete_property c k s' = Inl TypeError)
            \<and> (\<forall>ms. c < length (heap (attempts ms s'))
                   \<and> heap (attempts ms s') ! c = heap s' ! c))"
proof (intro conjI allI impI)
  assume "\<not> frozen (fst (contextualizeEvaluation X (data_of execOptions) (Suc (length (heap s)))))"
  then show "let fileID = uuid X (uuid_calls s);
              w = length (heap s);
              cells = contextualizeEvaluation X (data_of execOptions) (Suc w);
              h = heap s @
                  \<lparr>props = (evalFile_props fileID execOptions)(''evaluation'' \<mapsto> Ref (Suc w)),
                   frozen = False\<rparr>
                  # (fst cells)\<lparr>props := (props (fst cells))(''from_file'' \<mapsto> Ref w),
                                frozen := True\<rparr>
                  # snd cells
          in loadExecJson X execOptions s =
               (Inr fileID,
                s\<lparr>uuid_calls := Suc (uuid_calls s), heap := h,
                  trace := trace s @ [AddExecution w h, ToggleEvaluation fileID]\<rparr>)"
    unfolding Let_def by (rule loadExecJson_state)
next
  fix result execJson
  assume h: "convertFile X (text_of textOptions) = Inr result
        \<and> v1_0_ExecJson result = Some execJson \<and> truthy execJson
        \<and> \<not> frozen (fst (contextualizeEvaluation X execJson (Suc (length (heap s)))))"
  let ?s1 = "s\<lparr>uuid_calls := Suc (uuid_calls s)\<rparr>"
  from h have lt: "loadText X textOptions s =
      action X ''loadText''
        (loadText_execution X (uuid X (uuid_calls s)) textOptions execJson ?s1)"
    by (simp add: loadText_def loadText_body_def new_uuid_def)
  from h have nf: "\<not> frozen (fst (contextualizeEvaluation X execJson (Suc (length (heap ?s1)))))"
    by simp
  show "let fileID = uuid X (uuid_calls s);
                  w = length (heap s);
                  cells = contextualizeEvaluation X execJson (Suc w);
                  h = heap s @
                      \<lparr>props = (evalFile_props fileID textOptions)(''evaluation'' \<mapsto> Ref (Suc w)),
                       frozen = False\<rparr>
                      # (fst cells)\<lparr>props := (props (fst cells))(''from_file'' \<mapsto> Ref w),
                                    frozen := True\<rparr>
                      # snd cells
              in loadText X textOptions s =
                   (Inr fileID,
                    s\<lparr>uuid_calls := Suc (uuid_calls s), heap := h,
                      trace := trace s @ [AddExecution w h, ToggleEvaluation fileID]\<rparr>)"
    using loadText_execution_state[OF nf, of "uuid X (uuid_calls s)" textOptions]
    by (simp add: Let_def lt action_def)
next
  fix result profileJson
  assume h: "convertFile X (text_of textOptions) = Inr result
        \<and> \<not> toBoolean (v1_0_ExecJson result)
        \<and> v1_0_ProfileJson result = Some profileJson \<and> truthy profileJson
        \<and> \<not> frozen (fst (contextualizeProfile X profileJson (Suc (length (heap s)))))"
  let ?s1 = "s\<lparr>uuid_calls := Suc (uuid_calls s)\<rparr>"
  from h have lt: "loadText X textOptions s =
      action X ''loadText''
        (loadText_profile X (uuid X (uuid_calls s)) textOptions profileJson ?s1)"
    by (simp add: loadText_def loadText_body_def new_uuid_def when_truthy_falsy)
  from h have nf: "\<not> frozen (fst (contextualizeProfile X profileJson (Suc (length (heap ?s1)))))"
    by simp
  show "let fileID = uuid X (uuid_calls s);
                  w = length (heap s);
                  cells = contextualizeProfile X profileJson (Suc w);
                  h = heap s @
                      \<lparr>props = (profileFile_props fileID textOptions)(''profile'' \<mapsto> Ref (Suc w)),
                       frozen = False\<rparr>
                      # (fst cells)\<lparr>props := (props (fst cells))(''from_file'' \<mapsto> Ref w),
                                    frozen := True\<rparr>
                      # snd cells
              in loadText X textOptions s =
                   (Inr fileID,
                    s\<lparr>uuid_calls := Suc (uuid_calls s), heap := h,
                      trace := trace s @ [AddProfile w h, ToggleProfile fileID]\<rparr>)"
    using loadText_profile_state[OF nf, of "uuid X (uuid_calls s)" textOptions]
    by (simp add: Let_def lt action_def)
next
  fix s' :: world and c k v
  assume "c < length (heap s') \<and> frozen (heap s' ! c)"
  then show "assign c k v s' = Inl TypeError" by (simp add: frozen_assign)
next
  fix s' :: world and c k
  assume "c < length (heap s') \<and> frozen (heap s' ! c)"
  then show "delete_property c k s' = Inl TypeError" by (simp add: frozen_delete_property)
next
  fix s' :: world and c ms
  assume h: "c < length (heap s') \<and> frozen (heap s' ! c)"
  then show "c < length (heap (attempts ms s'))"
    using attempts_keep_frozen[of c s' ms] by simp
  from h show "heap (attempts ms s') ! c = heap s' ! c"
    using attempts_keep_frozen[of c s' ms] by simp
qed

text \<open>
  The theorem at a direct ingestion, at a text recognized as an execution and
  at a text recognized as a profile after a falsy execution; and, in the state
  after the direct ingestion, at the content object and a sequence of attempts
  on it and around it.
\<close>

theorem content_frozen_before_registration_witness:
  "loadExecJson (externals_with None (\<lambda>t. Returns (One JNull)) unrecognized)
      (exec_options example_execution ''converted.json'') init
    = (Inr ''u'',
       init\<lparr>uuid_calls := 1,
            heap := [\<lparr>props = (evalFile_props ''u''
                                 (exec_options example_execution ''converted.json''))
                               (''evaluation'' \<mapsto> Ref 1),
                      frozen = False\<rparr>,
                     \<lparr>props = [''data'' \<mapsto> Ref 2, ''from_file'' \<mapsto> Ref 0], frozen = True\<rparr>,
                     object_of_json example_execution],
            trace := [AddExecution 0
                        [\<lparr>props = (evalFile_props ''u''
                                     (exec_options example_execution ''converted.json''))
                                   (''evaluation'' \<mapsto> Ref 1),
                          frozen = False\<rparr>,
                         \<lparr>props = [''data'' \<mapsto> Ref 2, ''from_file'' \<mapsto> Ref 0],
                          frozen = True\<rparr>,
                         object_of_json example_execution],
                      ToggleEvaluation ''u'']\<rparr>)
   \<and> loadText
        (externals_with None (\<lambda>t. Returns (One JNull))
           (Inr \<lparr>v1_0_ExecJson = Some example_execution, v1_0_ProfileJson = None,
                 errors = []\<rparr>))
        (text_options ''execution'' ''exec.json'') init
    = (Inr ''u'',
       init\<lparr>uuid_calls := 1,
            heap := [\<lparr>props = (evalFile_props ''u'' (text_options ''execution'' ''exec.json''))
                               (''evaluation'' \<mapsto> Ref 1),
                      frozen = False\<rparr>,
                     \<lparr>props = [''data'' \<mapsto> Ref 2, ''from_file'' \<mapsto> Ref 0], frozen = True\<rparr>,
                     object_of_json example_execution],
            trace := [AddExecution 0
                        [\<lparr>props = (evalFile_props ''u''
                                     (text_options ''execution'' ''exec.json''))
                                   (''evaluation'' \<mapsto> Ref 1),
                          frozen = False\<rparr>,
                         \<lparr>props = [''data'' \<mapsto> Ref 2, ''from_file'' \<mapsto> Ref 0],
                          frozen = True\<rparr>,
                         object_of_json example_execution],
                      ToggleEvaluation ''u'']\<rparr>)
   \<and> loadText
        (externals_with None (\<lambda>t. Returns (One JNull))
           (Inr \<lparr>v1_0_ExecJson = Some JNull,
                 v1_0_ProfileJson = Some (JObj [(''controls'', JArr [])]), errors = []\<rparr>))
        (text_options ''profile'' ''profile.json'') init
    = (Inr ''u'',
       init\<lparr>uuid_calls := 1,
            heap := [\<lparr>props = (profileFile_props ''u'' (text_options ''profile'' ''profile.json''))
                               (''profile'' \<mapsto> Ref 1),
                      frozen = False\<rparr>,
                     \<lparr>props = [''data'' \<mapsto> Ref 2, ''from_file'' \<mapsto> Ref 0], frozen = True\<rparr>,
                     object_of_json (JObj [(''controls'', JArr [])])],
            trace := [AddProfile 0
                        [\<lparr>props = (profileFile_props ''u''
                                     (text_options ''profile'' ''profile.json''))
                                   (''profile'' \<mapsto> Ref 1),
                          frozen = False\<rparr>,
                         \<lparr>props = [''data'' \<mapsto> Ref 2, ''from_file'' \<mapsto> Ref 0],
                          frozen = True\<rparr>,
                         object_of_json (JObj [(''controls'', JArr [])])],
                      ToggleProfile ''u'']\<rparr>)
   \<and> assign 1 ''data'' Undefined after_ingestion = Inl TypeError
   \<and> delete_property 1 ''from_file'' after_ingestion = Inl TypeError
   \<and> heap (attempts [Assign 1 ''data'' Undefined, Delete 1 ''from_file'',
                      Assign 2 ''version'' (Json (JStr ''2.0'')), Freeze 1,
                      New (object_of_json example_execution), Assign 1 ''data'' (Ref 3)]
              after_ingestion) ! 1
     = heap after_ingestion ! 1"
proof -
  let ?X0 = "externals_with None (\<lambda>t. Returns (One JNull)) unrecognized"
  let ?eo = "exec_options example_execution ''converted.json''"
  let ?r1 = "\<lparr>v1_0_ExecJson = Some example_execution, v1_0_ProfileJson = None,
                 errors = []\<rparr>"
  let ?X1 = "externals_with None (\<lambda>t. Returns (One JNull)) (Inr ?r1)"
  let ?o1 = "text_options ''execution'' ''exec.json''"
  let ?pj = "JObj [(''controls'', JArr [])]"
  let ?r2 = "\<lparr>v1_0_ExecJson = Some JNull, v1_0_ProfileJson = Some ?pj, errors = []\<rparr>"
  let ?X2 = "externals_with None (\<lambda>t. Returns (One JNull)) (Inr ?r2)"
  let ?o2 = "text_options ''profile'' ''profile.json''"
  let ?ms = "[Assign 1 ''data'' Undefined, Delete 1 ''from_file'',
                      Assign 2 ''version'' (Json (JStr ''2.0'')), Freeze 1,
                      New (object_of_json example_execution), Assign 1 ''data'' (Ref 3)]"
  have h0: "\<not> frozen (fst (contextualizeEvaluation ?X0 (data_of ?eo) (Suc (length (heap init)))))"
    by (simp add: externals_with_simps contextualized_def)
  have h1: "convertFile ?X1 (text_of ?o1) = Inr ?r1
        \<and> v1_0_ExecJson ?r1 = Some example_execution \<and> truthy example_execution
        \<and> \<not> frozen (fst (contextualizeEvaluation ?X1 example_execution (Suc (length (heap init)))))"
    by (simp add: externals_with_simps contextualized_def example_execution_def)
  have h2: "convertFile ?X2 (text_of ?o2) = Inr ?r2
        \<and> \<not> toBoolean (v1_0_ExecJson ?r2)
        \<and> v1_0_ProfileJson ?r2 = Some ?pj \<and> truthy ?pj
        \<and> \<not> frozen (fst (contextualizeProfile ?X2 ?pj (Suc (length (heap init)))))"
    by (simp add: externals_with_simps contextualized_def)
  note e0 = content_frozen_before_registration[where X = ?X0 and execOptions = ?eo and s = init,
      THEN conjunct1, THEN mp, OF h0]
  note e1 = content_frozen_before_registration[where X = ?X1 and textOptions = ?o1 and s = init,
      THEN conjunct2, THEN conjunct1, THEN spec, THEN spec, THEN mp, OF h1]
  note e2 = content_frozen_before_registration[where X = ?X2 and textOptions = ?o2 and s = init,
      THEN conjunct2, THEN conjunct2, THEN conjunct1, THEN spec, THEN spec, THEN mp, OF h2]
  have g0: "loadExecJson ?X0 ?eo init
    = (Inr ''u'',
       init\<lparr>uuid_calls := 1,
            heap := [\<lparr>props = (evalFile_props ''u'' ?eo)(''evaluation'' \<mapsto> Ref 1),
                      frozen = False\<rparr>,
                     \<lparr>props = [''data'' \<mapsto> Ref 2, ''from_file'' \<mapsto> Ref 0], frozen = True\<rparr>,
                     object_of_json example_execution],
            trace := [AddExecution 0
                        [\<lparr>props = (evalFile_props ''u'' ?eo)(''evaluation'' \<mapsto> Ref 1),
                          frozen = False\<rparr>,
                         \<lparr>props = [''data'' \<mapsto> Ref 2, ''from_file'' \<mapsto> Ref 0],
                          frozen = True\<rparr>,
                         object_of_json example_execution],
                      ToggleEvaluation ''u'']\<rparr>)"
    using e0 by (simp add: Let_def externals_with_simps contextualized_def init_simps numeral_2_eq_2 options_simps)
  have g1: "loadText ?X1 ?o1 init
    = (Inr ''u'',
       init\<lparr>uuid_calls := 1,
            heap := [\<lparr>props = (evalFile_props ''u'' ?o1)(''evaluation'' \<mapsto> Ref 1),
                      frozen = False\<rparr>,
                     \<lparr>props = [''data'' \<mapsto> Ref 2, ''from_file'' \<mapsto> Ref 0], frozen = True\<rparr>,
                     object_of_json example_execution],
            trace := [AddExecution 0
                        [\<lparr>props = (evalFile_props ''u'' ?o1)(''evaluation'' \<mapsto> Ref 1),
                          frozen = False\<rparr>,
                         \<lparr>props = [''data'' \<mapsto> Ref 2, ''from_file'' \<mapsto> Ref 0],
                          frozen = True\<rparr>,
                         object_of_json example_execution],
                      ToggleEvaluation ''u'']\<rparr>)"
    using e1 by (simp add: Let_def externals_with_simps contextualized_def init_simps numeral_2_eq_2)
  have g2: "loadText ?X2 ?o2 init
    = (Inr ''u'',
       init\<lparr>uuid_calls := 1,
            heap := [\<lparr>props = (profileFile_props ''u'' ?o2)(''profile'' \<mapsto> Ref 1),
                      frozen = False\<rparr>,
                     \<lparr>props = [''data'' \<mapsto> Ref 2, ''from_file'' \<mapsto> Ref 0], frozen = True\<rparr>,
                     object_of_json ?pj],
            trace := [AddProfile 0
                        [\<lparr>props = (profileFile_props ''u'' ?o2)(''profile'' \<mapsto> Ref 1),
                          frozen = False\<rparr>,
                         \<lparr>props = [''data'' \<mapsto> Ref 2, ''from_file'' \<mapsto> Ref 0],
                          frozen = True\<rparr>,
                         object_of_json ?pj],
                      ToggleProfile ''u'']\<rparr>)"
    using e2 by (simp add: Let_def externals_with_simps contextualized_def init_simps numeral_2_eq_2)
  have h3: "1 < length (heap after_ingestion) \<and> frozen (heap after_ingestion ! 1)"
    using g0 by (simp add: after_ingestion_def)
  note e3 = content_frozen_before_registration[where X = ?X0 and execOptions = ?eo and textOptions = ?o1 and s = init,
      THEN conjunct2, THEN conjunct2, THEN conjunct2, THEN spec, THEN spec, THEN mp, OF h3]
  have g3: "assign 1 ''data'' Undefined after_ingestion = Inl TypeError"
    by (rule e3[THEN conjunct1, THEN spec, THEN spec])
  have g4: "delete_property 1 ''from_file'' after_ingestion = Inl TypeError"
    by (rule e3[THEN conjunct2, THEN conjunct1, THEN spec])
  have g5: "heap (attempts ?ms after_ingestion) ! 1 = heap after_ingestion ! 1"
    by (rule e3[THEN conjunct2, THEN conjunct2, THEN spec, THEN conjunct2])
  from g0 g1 g2 g3 g4 g5 show ?thesis by (intro conjI)
qed

end
